theory Spec2Isabelle
  imports Main "HOL-Library.Sublist" "HOL-Library.AList"
begin

section \<open>JavaScript strings\<close>

text \<open>
  A JavaScript string is modelled as a \<^typ>\<open>string\<close>, one \<^typ>\<open>char\<close> per code unit, so the
  model covers the code units below 256. There \<^verbatim>\<open>String.prototype.toLowerCase\<close> maps the
  letters \<open>A\<close>..\<open>Z\<close> (65..90) and the Latin-1 capitals 192..222 other than the
  multiplication sign 215 to the code 32 higher (bit 5 of the code is set) and leaves every
  other code unit as it is.
\<close>

fun toLowerCaseChar :: "char \<Rightarrow> char" where
  "toLowerCaseChar (Char b0 b1 b2 b3 b4 b5 b6 b7) =
     (if (65 \<le> (of_char (Char b0 b1 b2 b3 b4 b5 b6 b7) :: nat)
          \<and> (of_char (Char b0 b1 b2 b3 b4 b5 b6 b7) :: nat) \<le> 90)
         \<or> (192 \<le> (of_char (Char b0 b1 b2 b3 b4 b5 b6 b7) :: nat)
             \<and> (of_char (Char b0 b1 b2 b3 b4 b5 b6 b7) :: nat) \<le> 222
             \<and> (of_char (Char b0 b1 b2 b3 b4 b5 b6 b7) :: nat) \<noteq> 215)
      then Char b0 b1 b2 b3 b4 True b6 b7
      else Char b0 b1 b2 b3 b4 b5 b6 b7)"

definition toLowerCase :: "string \<Rightarrow> string" where
  "toLowerCase s = map toLowerCaseChar s"

text \<open>\<^verbatim>\<open>s.startsWith(p)\<close> and \<^verbatim>\<open>s.includes(p)\<close>.\<close>

fun startsWith :: "string \<Rightarrow> string \<Rightarrow> bool" where
  "startsWith s [] = True"
| "startsWith [] (p # ps) = False"
| "startsWith (c # cs) (p # ps) = (c = p \<and> startsWith cs ps)"

fun includesStr :: "string \<Rightarrow> string \<Rightarrow> bool" where
  "includesStr [] p = startsWith [] p"
| "includesStr (c # cs) p = (startsWith (c # cs) p \<or> includesStr cs p)"

text \<open>
  The regular expression \<^verbatim>\<open>/\d+[\+\-\*\/]\d+/\<close> of \<open>generateSmartFallback\<close>:
  \<open>matchArithHere\<close> is the match anchored at the start of its argument (a greedy run of
  at least one digit, one operator character, at least one digit), \<open>testArith\<close> is
  \<^verbatim>\<open>.test\<close>, which tries every start position from left to right.
\<close>

definition isDigit :: "char \<Rightarrow> bool" where
  "isDigit c = (48 \<le> (of_char c :: nat) \<and> (of_char c :: nat) \<le> 57)"

definition isArithOp :: "char \<Rightarrow> bool" where
  "isArithOp c = (c = CHR ''+'' \<or> c = CHR ''-'' \<or> c = CHR ''*'' \<or> c = CHR ''/'')"

definition matchArithHere :: "string \<Rightarrow> bool" where
  "matchArithHere s =
     (takeWhile isDigit s \<noteq> [] \<and>
      (case dropWhile isDigit s of
         operator # d # rest \<Rightarrow> isArithOp operator \<and> isDigit d
       | _ \<Rightarrow> False))"

fun testArith :: "string \<Rightarrow> bool" where
  "testArith [] = False"
| "testArith (c # cs) = (matchArithHere (c # cs) \<or> testArith cs)"

section \<open>Rule-based fallbacks of the providers\<close>

text \<open>\<open>GPTProvider.generateFallbackResponse\<close> (services/aiService.ts).\<close>

definition generateFallbackResponse :: "string \<Rightarrow> string" where
  "generateFallbackResponse message =
     (let lowerMessage = toLowerCase message in
      if includesStr lowerMessage ''hello'' \<or> includesStr lowerMessage ''hi''
      then ''Hello! How can I help you today?''
      else if includesStr lowerMessage ''help''
      then ''I'm here to help! You can ask me questions about various topics, request explanations, or just chat.''
      else if includesStr lowerMessage ''what'' \<or> includesStr lowerMessage ''how''
              \<or> includesStr lowerMessage ''why''
      then ''That's an interesting question! While I may not have all the answers, I'd be happy to discuss this topic with you.''
      else if includesStr lowerMessage ''thank''
      then ''You're welcome! Is there anything else I can help you with?''
      else ''I understand what you're saying. Could you tell me more about that or ask me something specific I can help with?'')"

text \<open>\<open>ClaudeProvider.generateSmartFallback\<close>; the arithmetic pattern is tested on the
  message as given, the keywords on its lower-cased copy.\<close>

definition generateSmartFallback :: "string \<Rightarrow> string" where
  "generateSmartFallback message =
     (let lowerMessage = toLowerCase message in
      if includesStr lowerMessage ''code'' \<or> includesStr lowerMessage ''program''
         \<or> includesStr lowerMessage ''function''
      then ''I can help with programming questions! Could you be more specific about what you'd like to build or debug?''
      else if includesStr lowerMessage ''calculate'' \<or> includesStr lowerMessage ''math''
              \<or> testArith message
      then ''I can help with calculations and math problems. Please provide the specific equation or problem you'd like me to solve.''
      else if includesStr lowerMessage ''explain'' \<or> includesStr lowerMessage ''what is''
              \<or> includesStr lowerMessage ''how does''
      then ''I'd be happy to explain that concept! Could you give me a bit more context about what specific aspect you'd like me to focus on?''
      else if includesStr lowerMessage ''write'' \<or> includesStr lowerMessage ''story''
              \<or> includesStr lowerMessage ''creative''
      then ''I can help with creative writing! What kind of story, article, or content would you like me to help you create?''
      else ''I understand your message. While I may not have a complete response right now, I'm here to help with various topics including programming, explanations, creative writing, and problem-solving. Could you tell me more about what you need assistance with?'')"

section \<open>Exceptions, HTTP replies and JSON values\<close>

text \<open>
  A thrown value is either an \<open>Error\<close> instance with its message or some other value.
  A call that may throw returns \<open>thrown + 'a\<close>, and \<open>tryCatch\<close> is \<^verbatim>\<open>try { body } catch (e) { handler }\<close>.
\<close>

datatype thrown = ErrorObj string | NonError

definition tryCatch :: "thrown + 'a \<Rightarrow> (thrown \<Rightarrow> thrown + 'a) \<Rightarrow> thrown + 'a" where
  "tryCatch body handler = (case body of Inl e \<Rightarrow> handler e | Inr v \<Rightarrow> Inr v)"

text \<open>
  The value of \<^verbatim>\<open>await response.json()\<close>. \<open>None\<close> of type \<open>json option\<close> stands for
  \<^verbatim>\<open>undefined\<close>. Only the zero test of a number is used, so numbers are integers here.
  An object is the list of its properties, every key once.
\<close>

datatype json =
    JNull
  | JBool bool
  | JNumber int
  | JString string
  | JArray "json list"
  | JObject "(string \<times> json) list"

record response =
  ok :: bool
  json_body :: "thrown + json"

fun truthy :: "json option \<Rightarrow> bool" where
  "truthy None = False"
| "truthy (Some JNull) = False"
| "truthy (Some (JBool b)) = b"
| "truthy (Some (JNumber n)) = (n \<noteq> 0)"
| "truthy (Some (JString s)) = (s \<noteq> [])"
| "truthy (Some (JArray xs)) = True"
| "truthy (Some (JObject fs)) = True"

text \<open>\<^verbatim>\<open>data[0]\<close> on an array and \<^verbatim>\<open>x?.key\<close> for a key that is no built-in property.\<close>

fun firstElement :: "json list \<Rightarrow> json option" where
  "firstElement [] = None"
| "firstElement (x # xs) = Some x"

fun optionalProp :: "json option \<Rightarrow> string \<Rightarrow> json option" where
  "optionalProp (Some (JObject fs)) key = map_of fs key"
| "optionalProp v key = None"

text \<open>\<^verbatim>\<open>String.prototype.trim\<close>: the white space and line terminator code units below 256
  are tab, line feed, vertical tab, form feed, carriage return (9..13), space (32) and
  no-break space (160).\<close>

definition isSpace :: "char \<Rightarrow> bool" where
  "isSpace c = ((of_char c :: nat) = 32 \<or> (of_char c :: nat) = 160
                \<or> (9 \<le> (of_char c :: nat) \<and> (of_char c :: nat) \<le> 13))"

definition trim :: "string \<Rightarrow> string" where
  "trim s = rev (dropWhile isSpace (rev (dropWhile isSpace s)))"

section \<open>Fallback chains of the providers\<close>

text \<open>
  The reply of the Hugging Face endpoint to a prompt is a parameter \<open>net\<close>: the fetch throws
  or returns a response. The part of \<open>generateResponse\<close> that reads a truthy
  \<^verbatim>\<open>data[0].generated_text\<close>: calling \<^verbatim>\<open>startsWith\<close> on a value that is no string throws a
  TypeError. \<open>orElse\<close> is the right operand of \<^verbatim>\<open>responseText || ...\<close>.
\<close>

definition cleanGenerated :: "json option \<Rightarrow> string \<Rightarrow> string \<Rightarrow> thrown + string" where
  "cleanGenerated generated message orElse =
     (case generated of
        Some (JString responseText) \<Rightarrow>
          (let responseText' =
                 (if startsWith responseText message
                  then trim (drop (length message) responseText)
                  else responseText)
           in Inr (if responseText' \<noteq> [] then responseText' else orElse))
      | _ \<Rightarrow> Inl (ErrorObj ''responseText.startsWith is not a function''))"

text \<open>\<open>GPTProvider.generateResponse\<close>.\<close>

definition gpt_generateResponse :: "(string \<Rightarrow> thrown + response) \<Rightarrow> string \<Rightarrow> thrown + string" where
  "gpt_generateResponse net message =
     tryCatch
       (case net message of
          Inl e \<Rightarrow> Inl e
        | Inr resp \<Rightarrow>
            if \<not> ok resp then Inr (generateFallbackResponse message)
            else (case json_body resp of
                    Inl e \<Rightarrow> Inl e
                  | Inr (JArray elems) \<Rightarrow>
                      if truthy (optionalProp (firstElement elems) ''generated_text'')
                      then cleanGenerated (optionalProp (firstElement elems) ''generated_text'') message
                             ''I understand your message. Could you please rephrase or ask something else?''
                      else Inr (generateFallbackResponse message)
                  | Inr _ \<Rightarrow> Inr (generateFallbackResponse message)))
       (\<lambda>error. Inr (generateFallbackResponse message))"

text \<open>\<open>ClaudeProvider.generateHuggingFaceResponse\<close>, the stage before the rule-based
  fallback of that provider.\<close>

definition generateHuggingFaceResponse :: "(string \<Rightarrow> thrown + response) \<Rightarrow> string \<Rightarrow> thrown + string" where
  "generateHuggingFaceResponse net message =
     tryCatch
       (case net message of
          Inl e \<Rightarrow> Inl e
        | Inr resp \<Rightarrow>
            if ok resp
            then (case json_body resp of
                    Inl e \<Rightarrow> Inl e
                  | Inr (JArray elems) \<Rightarrow>
                      if truthy (optionalProp (firstElement elems) ''generated_text'')
                      then cleanGenerated (optionalProp (firstElement elems) ''generated_text'') message
                             (generateSmartFallback message)
                      else Inr (generateSmartFallback message)
                  | Inr _ \<Rightarrow> Inr (generateSmartFallback message))
            else Inr (generateSmartFallback message))
       (\<lambda>error. Inr (generateSmartFallback message))"

text \<open>
  An ordered table of checks, evaluated top to bottom, as the specification describes the
  rule-based strategy: the response of the first check that holds, the default when none
  does.
\<close>

fun spec_firstMatch :: "((string \<Rightarrow> bool) \<times> string) list \<Rightarrow> string \<Rightarrow> string \<Rightarrow> string" where
  "spec_firstMatch [] dflt message = dflt"
| "spec_firstMatch ((check, canned) # rules) dflt message =
     (if check message then canned else spec_firstMatch rules dflt message)"

definition spec_gptRules :: "((string \<Rightarrow> bool) \<times> string) list" where
  "spec_gptRules =
     [(\<lambda>m. includesStr (toLowerCase m) ''hello'' \<or> includesStr (toLowerCase m) ''hi'',
       ''Hello! How can I help you today?''),
      (\<lambda>m. includesStr (toLowerCase m) ''help'',
       ''I'm here to help! You can ask me questions about various topics, request explanations, or just chat.''),
      (\<lambda>m. includesStr (toLowerCase m) ''what'' \<or> includesStr (toLowerCase m) ''how''
            \<or> includesStr (toLowerCase m) ''why'',
       ''That's an interesting question! While I may not have all the answers, I'd be happy to discuss this topic with you.''),
      (\<lambda>m. includesStr (toLowerCase m) ''thank'',
       ''You're welcome! Is there anything else I can help you with?'')]"

definition spec_claudeRules :: "((string \<Rightarrow> bool) \<times> string) list" where
  "spec_claudeRules =
     [(\<lambda>m. includesStr (toLowerCase m) ''code'' \<or> includesStr (toLowerCase m) ''program''
            \<or> includesStr (toLowerCase m) ''function'',
       ''I can help with programming questions! Could you be more specific about what you'd like to build or debug?''),
      (\<lambda>m. includesStr (toLowerCase m) ''calculate'' \<or> includesStr (toLowerCase m) ''math''
            \<or> testArith m,
       ''I can help with calculations and math problems. Please provide the specific equation or problem you'd like me to solve.''),
      (\<lambda>m. includesStr (toLowerCase m) ''explain'' \<or> includesStr (toLowerCase m) ''what is''
            \<or> includesStr (toLowerCase m) ''how does'',
       ''I'd be happy to explain that concept! Could you give me a bit more context about what specific aspect you'd like me to focus on?''),
      (\<lambda>m. includesStr (toLowerCase m) ''write'' \<or> includesStr (toLowerCase m) ''story''
            \<or> includesStr (toLowerCase m) ''creative'',
       ''I can help with creative writing! What kind of story, article, or content would you like me to help you create?'')]"

section \<open>Providers and the registry\<close>

text \<open>
  \<open>AIProvider\<close> is the interface of services/aiService.ts. What the remote endpoints answer
  is part of the environment, next to the credentials of \<^verbatim>\<open>import.meta.env\<close>.
\<close>

record AIProvider =
  getName :: string
  generateResponse :: "string \<Rightarrow> thrown + string"

text \<open>
  The response of the Gemini or the Claude endpoint, as far as \<open>generateResponse\<close> reads it:
  \<^verbatim>\<open>response.ok\<close>, \<^verbatim>\<open>response.status\<close>, and the outcome of reading the body.
  \<open>api_errorMessage\<close> is the evaluation of \<^verbatim>\<open>errorData.error?.message\<close> after
  \<^verbatim>\<open>await response.json()\<close>: \<open>Inl e\<close> when it throws \<open>e\<close>, \<open>Inr None\<close> when there is no
  message, \<open>Inr (Some m)\<close> when it is the message \<open>m\<close> (falsy when empty).
  \<open>api_text\<close> is the reading of the generated text (\<^verbatim>\<open>data.candidates[0].content.parts[0].text\<close>
  for Gemini, \<^verbatim>\<open>data.content[0].text\<close> for Claude) after \<^verbatim>\<open>await response.json()\<close>: \<open>Inl e\<close> when
  parsing or a property read throws \<open>e\<close>, \<open>Inr None\<close> when a value tested by the shape check
  of \<open>generateResponse\<close> is missing, \<open>Inr (Some t)\<close> when the text is the string \<open>t\<close>.
\<close>

record apiResponse =
  api_ok :: bool
  api_status :: nat
  api_errorMessage :: "thrown + string option"
  api_text :: "thrown + string option"

text \<open>The decimal digits of \<^verbatim>\<open>response.status\<close> inside a template literal.\<close>

function showNat :: "nat \<Rightarrow> string" where
  "showNat n =
     (if n < 10 then [''0123456789'' ! n]
      else showNat (n div 10) @ [''0123456789'' ! (n mod 10)])"
  by pat_completeness auto
termination
  by (relation "measure id") auto

declare showNat.simps [simp del]

text \<open>\<open>GeminiProvider.generateResponse\<close>: the \<^verbatim>\<open>try\<close> block throws on a failed fetch, on a
  status that is not ok and on a reply of another shape; the \<^verbatim>\<open>catch\<close> block replaces three
  kinds of messages and throws again.\<close>

definition gemini_generateResponse ::
  "(string \<Rightarrow> thrown + apiResponse) \<Rightarrow> string \<Rightarrow> thrown + string" where
  "gemini_generateResponse net message =
     tryCatch
       (case net message of
          Inl e \<Rightarrow> Inl e
        | Inr resp \<Rightarrow>
            if \<not> api_ok resp
            then (case api_errorMessage resp of
                    Inl e \<Rightarrow> Inl e
                  | Inr (Some m) \<Rightarrow>
                      if m \<noteq> [] then Inl (ErrorObj m)
                      else Inl (ErrorObj (''HTTP error! status: '' @ showNat (api_status resp)))
                  | Inr None \<Rightarrow>
                      Inl (ErrorObj (''HTTP error! status: '' @ showNat (api_status resp))))
            else (case api_text resp of
                    Inl e \<Rightarrow> Inl e
                  | Inr None \<Rightarrow> Inl (ErrorObj ''Invalid response format from Gemini API'')
                  | Inr (Some text) \<Rightarrow> Inr text))
       (\<lambda>error.
          case error of
            ErrorObj m \<Rightarrow>
              if includesStr m ''API key not valid''
              then Inl (ErrorObj ''Invalid API key. Please check your Gemini API key.'')
              else if includesStr m ''quota''
              then Inl (ErrorObj ''API quota exceeded. Please try again later.'')
              else if includesStr m ''Failed to fetch''
              then Inl (ErrorObj ''Network error. Please check your internet connection.'')
              else Inl (ErrorObj m)
          | NonError \<Rightarrow>
              Inl (ErrorObj ''An unexpected error occurred while contacting the AI service.''))"

text \<open>\<open>ClaudeProvider.generateResponse\<close> of client/src/services/aiService.ts; its shape
  check also refuses an empty text.\<close>

definition claude_generateResponse ::
  "(string \<Rightarrow> thrown + apiResponse) \<Rightarrow> string \<Rightarrow> thrown + string" where
  "claude_generateResponse net message =
     tryCatch
       (case net message of
          Inl e \<Rightarrow> Inl e
        | Inr resp \<Rightarrow>
            if \<not> api_ok resp
            then (case api_errorMessage resp of
                    Inl e \<Rightarrow> Inl e
                  | Inr (Some m) \<Rightarrow>
                      if m \<noteq> [] then Inl (ErrorObj m)
                      else Inl (ErrorObj (''HTTP error! status: '' @ showNat (api_status resp)))
                  | Inr None \<Rightarrow>
                      Inl (ErrorObj (''HTTP error! status: '' @ showNat (api_status resp))))
            else (case api_text resp of
                    Inl e \<Rightarrow> Inl e
                  | Inr None \<Rightarrow> Inl (ErrorObj ''Invalid response format from Claude API'')
                  | Inr (Some text) \<Rightarrow>
                      if text = []
                      then Inl (ErrorObj ''Invalid response format from Claude API'')
                      else Inr text))
       (\<lambda>error.
          case error of
            ErrorObj m \<Rightarrow>
              if includesStr m ''authentication''
              then Inl (ErrorObj ''Invalid Claude API key. Please check your API key.'')
              else if includesStr m ''rate_limit''
              then Inl (ErrorObj ''Claude API rate limit exceeded. Please try again later.'')
              else Inl (ErrorObj m)
          | NonError \<Rightarrow> Inl (ErrorObj ''An unexpected error occurred while contacting Claude.''))"

record Env =
  VITE_GEMINI_API_KEY :: "string option"
  VITE_CLAUDE_API_KEY :: "string option"
  geminiEndpoint :: "string \<Rightarrow> thrown + apiResponse"
  claudeEndpoint :: "string \<Rightarrow> thrown + apiResponse"
  huggingFaceEndpoint :: "string \<Rightarrow> thrown + response"

text \<open>\<^verbatim>\<open>!this.apiKey\<close>: the key is undefined or the empty string.\<close>

fun falsyKey :: "string option \<Rightarrow> bool" where
  "falsyKey None = True"
| "falsyKey (Some k) = (k = [])"

text \<open>The constructors of client/src/services/aiService.ts.\<close>

definition newGeminiProvider :: "Env \<Rightarrow> thrown + AIProvider" where
  "newGeminiProvider env =
     (if falsyKey (VITE_GEMINI_API_KEY env)
      then Inl (ErrorObj ''VITE_GEMINI_API_KEY environment variable is not set'')
      else Inr \<lparr>getName = ''Gemini 1.5 Flash'',
                generateResponse = gemini_generateResponse (geminiEndpoint env)\<rparr>)"

definition newGPTProvider :: "Env \<Rightarrow> thrown + AIProvider" where
  "newGPTProvider env =
     Inr \<lparr>getName = ''DialoGPT Large (Free)'',
          generateResponse = gpt_generateResponse (huggingFaceEndpoint env)\<rparr>"

definition newClaudeProvider :: "Env \<Rightarrow> thrown + AIProvider" where
  "newClaudeProvider env =
     (if falsyKey (VITE_CLAUDE_API_KEY env)
      then Inl (ErrorObj ''VITE_CLAUDE_API_KEY environment variable is not set'')
      else Inr \<lparr>getName = ''Claude 3'',
                generateResponse = claude_generateResponse (claudeEndpoint env)\<rparr>)"

text \<open>
  The registry is a JavaScript \<open>Map\<close>, which keeps its keys in insertion order: an
  association list, where \<^verbatim>\<open>providers.set\<close> is \<^const>\<open>AList.update\<close> (a new key goes to the end)
  and \<^verbatim>\<open>providers.get\<close> is \<^const>\<open>map_of\<close>. \<open>registerOrWarn\<close> is one block
  \<^verbatim>\<open>try { this.providers.set(key, new P()) } catch (error) { console.warn(...) }\<close>.
\<close>

type_synonym AIService = "(string \<times> AIProvider) list"

definition registerOrWarn :: "string \<Rightarrow> thrown + AIProvider \<Rightarrow> AIService \<Rightarrow> thrown + AIService" where
  "registerOrWarn key constructed providers =
     tryCatch
       (case constructed of
          Inl e \<Rightarrow> Inl e
        | Inr provider \<Rightarrow> Inr (AList.update key provider providers))
       (\<lambda>error. Inr providers)"

text \<open>The constructor of \<open>AIService\<close> in client/src/services/aiService.ts.\<close>

definition newAIService :: "Env \<Rightarrow> thrown + AIService" where
  "newAIService env =
     (case registerOrWarn ''gemini'' (newGeminiProvider env) [] of
        Inl e \<Rightarrow> Inl e
      | Inr providers1 \<Rightarrow>
          (case registerOrWarn ''gpt'' (newGPTProvider env) providers1 of
             Inl e \<Rightarrow> Inl e
           | Inr providers2 \<Rightarrow> registerOrWarn ''claude'' (newClaudeProvider env) providers2))"

definition getProvider :: "AIService \<Rightarrow> string \<Rightarrow> thrown + AIProvider" where
  "getProvider providers model =
     (case map_of providers model of
        None \<Rightarrow> Inl (ErrorObj (''AI model '' @ [CHR 0x22] @ model @ [CHR 0x22]
                               @ '' not available. Please check your API keys.''))
      | Some provider \<Rightarrow> Inr provider)"

definition getAvailableModels :: "AIService \<Rightarrow> (string \<times> string) list" where
  "getAvailableModels providers = map (\<lambda>(key, provider). (key, getName provider)) providers"

text \<open>
  src/services/aiService.ts, the registry that src/App.tsx imports: the same Gemini
  provider, simulated GPT and Claude providers, and a constructor without any
  \<^verbatim>\<open>try\<close>/\<^verbatim>\<open>catch\<close>.
\<close>

definition newGPTProvider_root :: "thrown + AIProvider" where
  "newGPTProvider_root =
     Inr \<lparr>getName = ''GPT-4'',
          generateResponse = (\<lambda>message.
            Inr (''GPT-4 Response: This is a simulated response to '' @ [CHR 0x22] @ message
                 @ [CHR 0x22] @ ''. To use real GPT-4, implement OpenAI API integration.''))\<rparr>"

definition newClaudeProvider_root :: "thrown + AIProvider" where
  "newClaudeProvider_root =
     Inr \<lparr>getName = ''Claude 3'',
          generateResponse = (\<lambda>message.
            Inr (''Claude 3 Response: This is a simulated response to '' @ [CHR 0x22] @ message
                 @ [CHR 0x22] @ ''. To use real Claude, implement Anthropic API integration.''))\<rparr>"

definition newAIService_root :: "Env \<Rightarrow> thrown + AIService" where
  "newAIService_root env =
     (case newGeminiProvider env of
        Inl e \<Rightarrow> Inl e
      | Inr gemini \<Rightarrow>
          (case newGPTProvider_root of
             Inl e \<Rightarrow> Inl e
           | Inr gpt \<Rightarrow>
               (case newClaudeProvider_root of
                  Inl e \<Rightarrow> Inl e
                | Inr claude \<Rightarrow>
                    Inr (AList.update ''claude'' claude
                          (AList.update ''gpt'' gpt
                            (AList.update ''gemini'' gemini []))))))"

definition getProvider_root :: "AIService \<Rightarrow> string \<Rightarrow> thrown + AIProvider" where
  "getProvider_root providers model =
     (case map_of providers model of
        None \<Rightarrow> Inl (ErrorObj (''AI model '' @ [CHR 0x22] @ model @ [CHR 0x22] @ '' not supported''))
      | Some provider \<Rightarrow> Inr provider)"

section \<open>Messages and the chat state (src/App.tsx)\<close>

datatype role = User | Ai

record Attachment =
  att_id :: string
  att_name :: string
  att_type :: string
  att_size :: nat
  att_url :: string
  att_content :: "string option"

record Message =
  msg_id :: string
  msg_type :: role
  msg_text :: string
  msg_timestamp :: nat
  msg_model :: "string option"
  msg_attachments :: "Attachment list option"

record ChatState =
  messages :: "Message list"
  isLoading :: bool
  error :: "string option"

text \<open>\<^verbatim>\<open>Array.prototype.join\<close> on strings.\<close>

fun joinStr :: "string \<Rightarrow> string list \<Rightarrow> string" where
  "joinStr sep [] = []"
| "joinStr sep [x] = x"
| "joinStr sep (x # y # ys) = x @ sep @ joinStr sep (y # ys)"

text \<open>The function mapped over the attachments in \<open>handleSendMessage\<close>;
  \<^verbatim>\<open>att.content && ...\<close> holds for a content that is there and not empty.\<close>

definition attachmentContextEntry :: "Attachment \<Rightarrow> string" where
  "attachmentContextEntry att =
     (case att_content att of
        Some content \<Rightarrow>
          if content \<noteq> [] \<and> startsWith (att_type att) ''text/''
          then ''File '' @ [CHR 0x22] @ att_name att @ [CHR 0x22] @ '' content:'' @ [CHR 0x0A] @ content
          else ''File attached: '' @ att_name att @ '' ('' @ att_type att @ '')''
      | None \<Rightarrow> ''File attached: '' @ att_name att @ '' ('' @ att_type att @ '')'')"

definition contextualMessage :: "string \<Rightarrow> Attachment list option \<Rightarrow> string" where
  "contextualMessage messageText attachments =
     (case attachments of
        Some atts \<Rightarrow>
          if length atts > 0
          then messageText @ [CHR 0x0A, CHR 0x0A] @ ''Attached files:'' @ [CHR 0x0A]
                 @ joinStr ([CHR 0x0A, CHR 0x0A]) (map attachmentContextEntry atts)
          else messageText
      | None \<Rightarrow> messageText)"

text \<open>\<^verbatim>\<open>error instanceof Error ? error.message : 'Failed to get AI response'\<close>.\<close>

fun errorText :: "thrown \<Rightarrow> string" where
  "errorText (ErrorObj m) = m"
| "errorText NonError = ''Failed to get AI response''"

text \<open>
  A handler is modelled by the trace of what it does, in order: every \<^verbatim>\<open>setChatState\<close>
  (with the state that results), the lookup of the provider and the call of its
  \<open>generateResponse\<close> with the prompt passed. The updater functions are applied in the
  order they are queued, starting from the state the handler reads. The values of
  \<^verbatim>\<open>uuidv4()\<close> and \<^verbatim>\<open>new Date()\<close> are parameters.
\<close>

datatype event =
    SetChatState ChatState
  | GetProvider string
  | GenerateResponse string

record Fresh =
  userMessageId :: string
  userMessageTime :: nat
  aiMessageId :: string
  aiMessageTime :: nat

fun finalState :: "ChatState \<Rightarrow> event list \<Rightarrow> ChatState" where
  "finalState st [] = st"
| "finalState st (SetChatState st' # evs) = finalState st' evs"
| "finalState st (ev # evs) = finalState st evs"

text \<open>The two messages \<open>handleSendMessage\<close> builds.\<close>

definition userMessage :: "Fresh \<Rightarrow> string \<Rightarrow> Attachment list option \<Rightarrow> Message" where
  "userMessage fresh messageText attachments =
     \<lparr>msg_id = userMessageId fresh, msg_type = User, msg_text = messageText,
      msg_timestamp = userMessageTime fresh, msg_model = None,
      msg_attachments = attachments\<rparr>"

definition aiMessage :: "Fresh \<Rightarrow> string \<Rightarrow> AIProvider \<Rightarrow> Message" where
  "aiMessage fresh response provider =
     \<lparr>msg_id = aiMessageId fresh, msg_type = Ai, msg_text = response,
      msg_timestamp = aiMessageTime fresh, msg_model = Some (getName provider),
      msg_attachments = None\<rparr>"

definition handleSendMessage ::
  "(string \<Rightarrow> thrown + AIProvider) \<Rightarrow> string \<Rightarrow> Fresh \<Rightarrow> ChatState \<Rightarrow> string
     \<Rightarrow> Attachment list option \<Rightarrow> event list" where
  "handleSendMessage aiService aiModel fresh st messageText attachments =
     (let st1 = st\<lparr>messages := messages st @ [userMessage fresh messageText attachments],
                   isLoading := True, error := None\<rparr>
      in SetChatState st1 # GetProvider aiModel #
         (case aiService aiModel of
            Inl e \<Rightarrow> [SetChatState (st1\<lparr>isLoading := False, error := Some (errorText e)\<rparr>)]
          | Inr provider \<Rightarrow>
              GenerateResponse (contextualMessage messageText attachments) #
              (case generateResponse provider (contextualMessage messageText attachments) of
                 Inl e \<Rightarrow> [SetChatState (st1\<lparr>isLoading := False, error := Some (errorText e)\<rparr>)]
               | Inr response \<Rightarrow>
                   [SetChatState
                      (st1\<lparr>messages := messages st1 @ [aiMessage fresh response provider],
                           isLoading := False\<rparr>)])))"

definition handleRegenerate ::
  "(string \<Rightarrow> thrown + AIProvider) \<Rightarrow> string \<Rightarrow> Fresh \<Rightarrow> ChatState \<Rightarrow> event list" where
  "handleRegenerate aiService aiModel fresh st =
     (case find (\<lambda>msg. msg_type msg = User) (rev (messages st)) of
        Some lastUserMessage \<Rightarrow>
          (let st1 = st\<lparr>messages := butlast (messages st), error := None\<rparr>
           in SetChatState st1 #
              handleSendMessage aiService aiModel fresh st1 (msg_text lastUserMessage) None)
      | None \<Rightarrow> [])"

text \<open>
  The prop \<^verbatim>\<open>onRegenerate\<close> of the \<open>ChatMessage\<close> rendered for the message at position
  \<open>index\<close> of \<^verbatim>\<open>chatState.messages.map\<close>: it is \<open>handleRegenerate\<close> when this holds and
  \<^verbatim>\<open>undefined\<close> otherwise, so the handler only ever runs on a state for which it holds at
  some position.
\<close>

definition onRegenerate :: "ChatState \<Rightarrow> nat \<Rightarrow> bool" where
  "onRegenerate st index =
     (index < length (messages st)
      \<and> msg_type (messages st ! index) = Ai \<and> int index = int (length (messages st)) - 1)"

section \<open>Conversations (src/App.tsx)\<close>

record Conversation =
  conv_id :: string
  title :: string
  conv_messages :: "Message list"
  createdAt :: nat
  updatedAt :: nat

record AppState =
  chatState :: ChatState
  conversations :: "Conversation list"
  currentConversationId :: "string option"
  settings_aiModel :: string
  isSidebarOpen :: bool

definition generateConversationTitle :: "Message list \<Rightarrow> string" where
  "generateConversationTitle msgs =
     (case find (\<lambda>m. msg_type m = User) msgs of
        Some firstUserMessage \<Rightarrow>
          if length (msg_text firstUserMessage) > 30
          then take 30 (msg_text firstUserMessage) @ ''...''
          else msg_text firstUserMessage
      | None \<Rightarrow> ''New Conversation'')"

record FreshConversation =
  conversationId :: string
  createdTime :: nat
  updatedTime :: nat
  welcomeId :: string
  welcomeTime :: nat

definition addWelcomeMessage :: "FreshConversation \<Rightarrow> AppState \<Rightarrow> AppState" where
  "addWelcomeMessage fresh app =
     app\<lparr>chatState := (chatState app)\<lparr>messages :=
       [\<lparr>msg_id = welcomeId fresh, msg_type = Ai,
         msg_text = ''Hello! I'm your AI assistant with multi-model support. I can help you with questions, creative tasks, problem-solving, and much more. You can switch between different AI models in settings, use voice input/output, and even attach files to our conversation. How can I assist you today?'',
         msg_timestamp = welcomeTime fresh, msg_model = Some (settings_aiModel app),
         msg_attachments = None\<rparr>]\<rparr>\<rparr>"

text \<open>\<^verbatim>\<open>currentConversationId || uuidv4()\<close>: an id that is null or empty is replaced.\<close>

fun idOrFresh :: "string option \<Rightarrow> string \<Rightarrow> string" where
  "idOrFresh None newId = newId"
| "idOrFresh (Some i) newId = (if i \<noteq> [] then i else newId)"

definition handleNewConversation :: "FreshConversation \<Rightarrow> AppState \<Rightarrow> AppState" where
  "handleNewConversation fresh app =
     (let saved =
            (if length (messages (chatState app)) > 0
             then (let conversation =
                         \<lparr>conv_id = idOrFresh (currentConversationId app) (conversationId fresh),
                          title = generateConversationTitle (messages (chatState app)),
                          conv_messages = messages (chatState app),
                          createdAt = createdTime fresh,
                          updatedAt = updatedTime fresh\<rparr>
                   in app\<lparr>conversations :=
                        (case find (\<lambda>c. conv_id c = conv_id conversation) (conversations app) of
                           Some existing \<Rightarrow>
                             map (\<lambda>c. if conv_id c = conv_id conversation then conversation else c)
                                 (conversations app)
                         | None \<Rightarrow> conversation # conversations app)\<rparr>)
             else app)
      in (addWelcomeMessage fresh
            (saved\<lparr>chatState := \<lparr>messages = [], isLoading = False, error = None\<rparr>,
                   currentConversationId := None\<rparr>))
         \<lparr>isSidebarOpen := False\<rparr>)"

definition handleSelectConversation :: "Conversation \<Rightarrow> AppState \<Rightarrow> AppState" where
  "handleSelectConversation conversation app =
     app\<lparr>chatState := \<lparr>messages = conv_messages conversation, isLoading = False, error = None\<rparr>,
         currentConversationId := Some (conv_id conversation),
         isSidebarOpen := False\<rparr>"

section \<open>Example values\<close>

text \<open>Concrete messages, environments and states on which the theorems below are
  instantiated.\<close>

definition exampleWelcome :: Message where
  "exampleWelcome =
     \<lparr>msg_id = ''w0'', msg_type = Ai, msg_text = ''Hello!'', msg_timestamp = 0,
      msg_model = Some ''gpt'', msg_attachments = None\<rparr>"

definition exampleUserHi :: Message where
  "exampleUserHi =
     \<lparr>msg_id = ''u1'', msg_type = User, msg_text = ''hi'', msg_timestamp = 1,
      msg_model = None, msg_attachments = None\<rparr>"

definition exampleUserLong :: Message where
  "exampleUserLong =
     \<lparr>msg_id = ''u0'', msg_type = User,
      msg_text = ''Please summarize the attached quarterly report'',
      msg_timestamp = 1, msg_model = None, msg_attachments = None\<rparr>"

definition exampleAssistantHello :: Message where
  "exampleAssistantHello =
     \<lparr>msg_id = ''a1'', msg_type = Ai, msg_text = ''hello'', msg_timestamp = 2,
      msg_model = Some ''GPT-4'', msg_attachments = None\<rparr>"

definition exampleFresh :: Fresh where
  "exampleFresh =
     \<lparr>userMessageId = ''u2'', userMessageTime = 3, aiMessageId = ''a2'', aiMessageTime = 4\<rparr>"

definition exampleChat :: ChatState where
  "exampleChat = \<lparr>messages = [exampleWelcome], isLoading = False, error = None\<rparr>"

text \<open>An environment without credentials and one with both, every endpoint unreachable.\<close>

definition exampleEnv :: Env where
  "exampleEnv =
     \<lparr>VITE_GEMINI_API_KEY = None, VITE_CLAUDE_API_KEY = None,
      geminiEndpoint = (\<lambda>prompt. Inl (ErrorObj ''Failed to fetch'')),
      claudeEndpoint = (\<lambda>prompt. Inl (ErrorObj ''Failed to fetch'')),
      huggingFaceEndpoint = (\<lambda>prompt. Inl (ErrorObj ''Failed to fetch''))\<rparr>"

definition exampleEnvWithKeys :: Env where
  "exampleEnvWithKeys =
     \<lparr>VITE_GEMINI_API_KEY = Some ''key-g'', VITE_CLAUDE_API_KEY = Some ''key-c'',
      geminiEndpoint = (\<lambda>prompt. Inl (ErrorObj ''Failed to fetch'')),
      claudeEndpoint = (\<lambda>prompt. Inl (ErrorObj ''Failed to fetch'')),
      huggingFaceEndpoint = (\<lambda>prompt. Inl (ErrorObj ''Failed to fetch''))\<rparr>"

definition exampleService :: "string \<Rightarrow> thrown + AIProvider" where
  "exampleService model =
     (case newAIService exampleEnv of
        Inl e \<Rightarrow> Inl e
      | Inr providers \<Rightarrow> getProvider providers model)"

definition exampleServiceWithKeys :: "string \<Rightarrow> thrown + AIProvider" where
  "exampleServiceWithKeys model =
     (case newAIService exampleEnvWithKeys of
        Inl e \<Rightarrow> Inl e
      | Inr providers \<Rightarrow> getProvider providers model)"

definition exampleTextFile :: Attachment where
  "exampleTextFile =
     \<lparr>att_id = ''f1'', att_name = ''a.txt'', att_type = ''text/plain'', att_size = 1,
      att_url = ''blob:1'', att_content = Some ''X''\<rparr>"

definition exampleEmptyTextFile :: Attachment where
  "exampleEmptyTextFile =
     \<lparr>att_id = ''f3'', att_name = ''a.txt'', att_type = ''text/plain'', att_size = 0,
      att_url = ''blob:3'', att_content = Some []\<rparr>"

definition exampleImage :: Attachment where
  "exampleImage =
     \<lparr>att_id = ''f2'', att_name = ''a.png'', att_type = ''image/png'', att_size = 100,
      att_url = ''blob:2'', att_content = None\<rparr>"

definition exampleApp :: AppState where
  "exampleApp =
     \<lparr>chatState = exampleChat, conversations = [], currentConversationId = None,
      settings_aiModel = ''gpt'', isSidebarOpen = False\<rparr>"

definition exampleFreshConversation :: FreshConversation where
  "exampleFreshConversation =
     \<lparr>conversationId = ''c1'', createdTime = 5, updatedTime = 5, welcomeId = ''w1'',
      welcomeTime = 5\<rparr>"

definition exampleFreshConversation2 :: FreshConversation where
  "exampleFreshConversation2 =
     \<lparr>conversationId = ''c2'', createdTime = 9, updatedTime = 9, welcomeId = ''w2'',
      welcomeTime = 9\<rparr>"

text \<open>The first save of a conversation, its selection in the sidebar, one message sent in
  it, and the second save.\<close>

definition exampleSavedOnce :: AppState where
  "exampleSavedOnce = handleNewConversation exampleFreshConversation exampleApp"

definition exampleReopened :: AppState where
  "exampleReopened =
     handleSelectConversation (hd (conversations exampleSavedOnce)) exampleSavedOnce"

definition exampleAfterSend :: AppState where
  "exampleAfterSend =
     exampleReopened\<lparr>chatState :=
       finalState (chatState exampleReopened)
         (handleSendMessage exampleService ''gpt'' exampleFresh (chatState exampleReopened)
            ''hi'' None)\<rparr>"

definition exampleSavedTwice :: AppState where
  "exampleSavedTwice = handleNewConversation exampleFreshConversation2 exampleAfterSend"

section \<open>Properties of the string and list operations\<close>

lemma startsWith_prefix: "startsWith s p = prefix p s"
  by (induction s p rule: startsWith.induct) auto

lemma includesStr_sublist: "includesStr s p = sublist p s"
  by (induction s p rule: includesStr.induct)
     (auto simp: startsWith_prefix sublist_Cons_right)

lemma joinStr_Cons: "joinStr sep (x # xs) = x @ concat (map (\<lambda>y. sep @ y) xs)"
  by (induction xs arbitrary: x) simp_all

text \<open>\<^verbatim>\<open>xs.slice().reverse().find(p)\<close> returns the last element of \<open>xs\<close> that satisfies \<open>p\<close>.\<close>

lemma find_rev_Some:
  "find P (rev xs) = Some m \<Longrightarrow>
     \<exists>before after. xs = before @ m # after \<and> P m \<and> (\<forall>x\<in>set after. \<not> P x)"
proof (induction xs rule: rev_induct)
  case Nil
  then show ?case by simp
next
  case (snoc x xs)
  show ?case
  proof (cases "P x")
    case True
    with snoc.prems have "m = x" by simp
    with True have "xs @ [x] = xs @ m # [] \<and> P m \<and> (\<forall>y\<in>set []. \<not> P y)" by simp
    then show ?thesis by blast
  next
    case False
    with snoc.prems have "find P (rev xs) = Some m" by simp
    from snoc.IH [OF this] obtain before after
      where "xs = before @ m # after" "P m" "\<forall>y\<in>set after. \<not> P y" by blast
    with False
    have "xs @ [x] = before @ m # (after @ [x]) \<and> P m \<and> (\<forall>y\<in>set (after @ [x]). \<not> P y)"
      by simp
    then show ?thesis by blast
  qed
qed

lemma find_rev_None: "(find P (rev xs) = None) = (\<forall>x\<in>set xs. \<not> P x)"
  by (auto simp: find_None_iff)

lemma find_first:
  "(\<forall>x\<in>set before. \<not> P x) \<Longrightarrow> P m \<Longrightarrow> find P (before @ m # after) = Some m"
  by (induction before) simp_all

lemma find_append_found:
  "\<exists>x\<in>set xs. P x \<Longrightarrow> find P (xs @ ys) = find P xs"
  by (induction xs) auto

section \<open>The rule-based fallbacks\<close>

text \<open>
  Claim C10. The greeting check of \<open>generateFallbackResponse\<close> is a raw substring test on
  the lower-cased prompt: whenever the lower-cased prompt contains \<open>hi\<close> anywhere, that is,
  it is \<open>before @ ''hi'' @ after\<close> for some \<open>before\<close> and \<open>after\<close>, the canned greeting is
  returned, whatever later keywords the prompt also contains.
\<close>

theorem greeting_on_raw_substring:
  assumes "toLowerCase message = before @ ''hi'' @ after"
  shows "generateFallbackResponse message = ''Hello! How can I help you today?''"
proof -
  have "sublist ''hi'' (toLowerCase message)"
    unfolding sublist_def using assms by blast
  then have "includesStr (toLowerCase message) ''hi''"
    by (simp only: includesStr_sublist)
  then show ?thesis
    by (simp add: generateFallbackResponse_def Let_def)
qed

text \<open>
  Claim C10 on a prompt whose only \<open>hi\<close> is inside the word \<open>THIS\<close> and which also
  holds the keywords of the three later checks (\<open>what\<close>, \<open>thank\<close>, \<open>help\<close>).
\<close>

theorem greeting_on_raw_substring_witness:
  "toLowerCase ''What is THIS? thanks for the help'' = ''what is t'' @ ''hi'' @ ''s? thanks for the help''
   \<and> generateFallbackResponse ''What is THIS? thanks for the help''
       = ''Hello! How can I help you today?''"
proof -
  have h: "toLowerCase ''What is THIS? thanks for the help''
             = ''what is t'' @ ''hi'' @ ''s? thanks for the help''"
    by (simp add: toLowerCase_def)
  show ?thesis
    using h greeting_on_raw_substring [OF h] by simp
qed

text \<open>
  Claim C3, as stated, fails. The claim describes one sequence of eight checks, greeting
  first and programming keywords fifth, with one generic response. The code has two
  separate chains in two providers. The prompt \<open>hello\<close> contains a greeting word, yet
  \<open>generateSmartFallback\<close> does not answer with the greeting; the prompt \<open>code\<close> contains a
  programming keyword and none of the four earlier keywords, yet \<open>generateFallbackResponse\<close>
  does not answer with the programming response; and on \<open>ok\<close>, which matches no check, the
  two functions return two different generic responses.
\<close>

theorem single_sequence_counterexample:
  "includesStr (toLowerCase ''hello'') ''hello''
   \<and> generateSmartFallback ''hello'' \<noteq> ''Hello! How can I help you today?''
   \<and> includesStr (toLowerCase ''code'') ''code''
   \<and> generateFallbackResponse ''code''
       \<noteq> ''I can help with programming questions! Could you be more specific about what you'd like to build or debug?''
   \<and> generateFallbackResponse ''ok'' \<noteq> generateSmartFallback ''ok''"
  by (simp add: generateFallbackResponse_def generateSmartFallback_def toLowerCase_def Let_def
        matchArithHere_def isDigit_def)

lemma spec_firstMatch_first:
  "(\<forall>(c, r)\<in>set before. \<not> c message) \<Longrightarrow> check message \<Longrightarrow>
     spec_firstMatch (before @ (check, canned) # after) dflt message = canned"
  by (induction before) auto

lemma spec_firstMatch_none:
  "(\<forall>(c, r)\<in>set rules. \<not> c message) \<Longrightarrow> spec_firstMatch rules dflt message = dflt"
  by (induction rules) auto

text \<open>
  Claim C3, amended. Each provider has its own fixed ordered chain of four checks on the
  lower-cased prompt, and in each chain the first check that holds decides the response:
  \<open>generateFallbackResponse\<close> tests greeting words, \<open>help\<close>, interrogative words and
  \<open>thank\<close>, in this order, and has its own generic response; \<open>generateSmartFallback\<close> tests
  programming keywords, arithmetic (two keywords or the digit-operator-digit pattern on
  the prompt as given), explanation phrases and writing keywords, in this order, and has
  another generic response. Each function equals the top-to-bottom evaluation of its table,
  and that evaluation returns the response of the first check that holds (whatever checks
  after it hold too) and the default when no check holds.
\<close>

theorem fallback_chains_first_match:
  "generateFallbackResponse message =
     spec_firstMatch spec_gptRules
       ''I understand what you're saying. Could you tell me more about that or ask me something specific I can help with?''
       message
   \<and> generateSmartFallback message =
     spec_firstMatch spec_claudeRules
       ''I understand your message. While I may not have a complete response right now, I'm here to help with various topics including programming, explanations, creative writing, and problem-solving. Could you tell me more about what you need assistance with?''
       message
   \<and> ((\<forall>(c, r)\<in>set before. \<not> c message) \<and> check message \<longrightarrow>
         spec_firstMatch (before @ (check, canned) # after) dflt message = canned)
   \<and> ((\<forall>(c, r)\<in>set rules. \<not> c message) \<longrightarrow> spec_firstMatch rules dflt message = dflt)"
  using spec_firstMatch_first [of before message check canned after dflt]
    spec_firstMatch_none [of rules message dflt]
  by (simp add: generateFallbackResponse_def generateSmartFallback_def spec_gptRules_def
        spec_claudeRules_def Let_def)

text \<open>
  Claim C3, amended, on a prompt that contains \<open>how\<close> (third check of the first chain) and
  \<open>thank\<close> (fourth check), and on a prompt that no check of that chain matches.
\<close>

theorem fallback_chains_first_match_witness:
  "includesStr (toLowerCase ''Thanks, how does it work?'') ''how''
   \<and> includesStr (toLowerCase ''Thanks, how does it work?'') ''thank''
   \<and> generateFallbackResponse ''Thanks, how does it work?''
       = ''That's an interesting question! While I may not have all the answers, I'd be happy to discuss this topic with you.''
   \<and> generateSmartFallback ''Thanks, how does it work?''
       = ''I'd be happy to explain that concept! Could you give me a bit more context about what specific aspect you'd like me to focus on?''
   \<and> generateFallbackResponse ''ok''
       = ''I understand what you're saying. Could you tell me more about that or ask me something specific I can help with?''"
proof -
  let ?m = "''Thanks, how does it work?''"
  let ?G = "''I understand what you're saying. Could you tell me more about that or ask me something specific I can help with?''"
  have split: "spec_gptRules = take 2 spec_gptRules @ (fst (spec_gptRules ! 2), snd (spec_gptRules ! 2)) # drop 3 spec_gptRules"
    by (simp add: spec_gptRules_def)
  have earlier: "\<forall>(c, r)\<in>set (take 2 spec_gptRules). \<not> c ?m"
    by (simp add: spec_gptRules_def toLowerCase_def)
  have holds: "fst (spec_gptRules ! 2) ?m"
    by (simp add: spec_gptRules_def toLowerCase_def)
  have none: "\<forall>(c, r)\<in>set spec_gptRules. \<not> c ''ok''"
    by (simp add: spec_gptRules_def toLowerCase_def)
  note inst = fallback_chains_first_match
         [of ?m "take 2 spec_gptRules" "fst (spec_gptRules ! 2)" "snd (spec_gptRules ! 2)"
             "drop 3 spec_gptRules" ?G spec_gptRules]
  from inst earlier holds split
  have "generateFallbackResponse ?m = snd (spec_gptRules ! 2)"
    by simp
  then have one: "generateFallbackResponse ?m
       = ''That's an interesting question! While I may not have all the answers, I'd be happy to discuss this topic with you.''"
    by (simp add: spec_gptRules_def)
  from fallback_chains_first_match
         [of "''ok''" "[]" "\<lambda>m. True" "[]" "[]" ?G spec_gptRules] none
  have two: "generateFallbackResponse ''ok'' = ?G"
    by simp
  have three: "generateSmartFallback ?m
       = ''I'd be happy to explain that concept! Could you give me a bit more context about what specific aspect you'd like me to focus on?''"
    by (simp add: generateSmartFallback_def toLowerCase_def Let_def matchArithHere_def isDigit_def)
  have four: "includesStr (toLowerCase ?m) ''how'' \<and> includesStr (toLowerCase ?m) ''thank''"
    by (simp add: toLowerCase_def)
  from one two three four show ?thesis by simp
qed

lemma generateFallbackResponse_canned:
  "generateFallbackResponse message \<in>
     {''Hello! How can I help you today?'',
      ''I'm here to help! You can ask me questions about various topics, request explanations, or just chat.'',
      ''That's an interesting question! While I may not have all the answers, I'd be happy to discuss this topic with you.'',
      ''You're welcome! Is there anything else I can help you with?'',
      ''I understand what you're saying. Could you tell me more about that or ask me something specific I can help with?''}"
  by (simp add: generateFallbackResponse_def Let_def)

lemma generateSmartFallback_canned:
  "generateSmartFallback message \<in>
     {''I can help with programming questions! Could you be more specific about what you'd like to build or debug?'',
      ''I can help with calculations and math problems. Please provide the specific equation or problem you'd like me to solve.'',
      ''I'd be happy to explain that concept! Could you give me a bit more context about what specific aspect you'd like me to focus on?'',
      ''I can help with creative writing! What kind of story, article, or content would you like me to help you create?'',
      ''I understand your message. While I may not have a complete response right now, I'm here to help with various topics including programming, explanations, creative writing, and problem-solving. Could you tell me more about what you need assistance with?''}"
  by (simp add: generateSmartFallback_def Let_def)

lemma generateFallbackResponse_nonempty: "generateFallbackResponse message \<noteq> []"
  by (simp add: generateFallbackResponse_def Let_def)

lemma generateSmartFallback_nonempty: "generateSmartFallback message \<noteq> []"
  by (simp add: generateSmartFallback_def Let_def)

lemma cleanGenerated_nonempty:
  "cleanGenerated g message orElse = Inr t \<Longrightarrow> orElse \<noteq> [] \<Longrightarrow> t \<noteq> []"
  by (auto simp: cleanGenerated_def Let_def split: option.splits json.splits if_splits)

lemma gpt_generateResponse_resolves:
  "\<exists>t. gpt_generateResponse net message = Inr t \<and> t \<noteq> []"
  by (auto simp: gpt_generateResponse_def tryCatch_def generateFallbackResponse_nonempty
      split: sum.splits json.splits dest: cleanGenerated_nonempty)

lemma generateHuggingFaceResponse_resolves:
  "\<exists>t. generateHuggingFaceResponse net message = Inr t \<and> t \<noteq> []"
  by (auto simp: generateHuggingFaceResponse_def tryCatch_def generateSmartFallback_nonempty
      split: sum.splits json.splits dest: cleanGenerated_nonempty)

lemma gpt_failure_paths:
  "gpt_generateResponse (\<lambda>m. Inl e) message = Inr (generateFallbackResponse message)"
  "gpt_generateResponse (\<lambda>m. Inr \<lparr>ok = False, json_body = body\<rparr>) message
     = Inr (generateFallbackResponse message)"
  "gpt_generateResponse (\<lambda>m. Inr \<lparr>ok = True, json_body = Inl e\<rparr>) message
     = Inr (generateFallbackResponse message)"
  by (simp_all add: gpt_generateResponse_def tryCatch_def)

lemma hf_failure_paths:
  "generateHuggingFaceResponse (\<lambda>m. Inl e) message = Inr (generateSmartFallback message)"
  "generateHuggingFaceResponse (\<lambda>m. Inr \<lparr>ok = False, json_body = body\<rparr>) message
     = Inr (generateSmartFallback message)"
  "generateHuggingFaceResponse (\<lambda>m. Inr \<lparr>ok = True, json_body = Inl e\<rparr>) message
     = Inr (generateSmartFallback message)"
  by (simp_all add: generateHuggingFaceResponse_def tryCatch_def)

text \<open>
  Claim C4. On every input string each rule-based terminal fallback returns a text: one of
  the five canned responses of its chain, so never an empty one, and it has no failing
  branch. The chains that end in it never reject either: whatever the endpoint does
  (\<open>net\<close> is arbitrary: the fetch throws, the status is an error, the body does not parse
  or has another shape), \<open>gpt_generateResponse\<close> and \<open>generateHuggingFaceResponse\<close> resolve
  with a non-empty text. The fallback is a function of the prompt alone: whichever way the
  remote attempt fails (a thrown fetch, an error status, an unreadable body), the chain
  resolves with the same text, the fallback's response to that prompt.
\<close>

theorem terminal_fallback_total_deterministic:
  "generateFallbackResponse message \<in>
     {''Hello! How can I help you today?'',
      ''I'm here to help! You can ask me questions about various topics, request explanations, or just chat.'',
      ''That's an interesting question! While I may not have all the answers, I'd be happy to discuss this topic with you.'',
      ''You're welcome! Is there anything else I can help you with?'',
      ''I understand what you're saying. Could you tell me more about that or ask me something specific I can help with?''}
   \<and> generateSmartFallback message \<in>
     {''I can help with programming questions! Could you be more specific about what you'd like to build or debug?'',
      ''I can help with calculations and math problems. Please provide the specific equation or problem you'd like me to solve.'',
      ''I'd be happy to explain that concept! Could you give me a bit more context about what specific aspect you'd like me to focus on?'',
      ''I can help with creative writing! What kind of story, article, or content would you like me to help you create?'',
      ''I understand your message. While I may not have a complete response right now, I'm here to help with various topics including programming, explanations, creative writing, and problem-solving. Could you tell me more about what you need assistance with?''}
   \<and> (\<exists>t. gpt_generateResponse net message = Inr t \<and> t \<noteq> [])
   \<and> (\<exists>t. generateHuggingFaceResponse net message = Inr t \<and> t \<noteq> [])
   \<and> gpt_generateResponse (\<lambda>m. Inl e) message = Inr (generateFallbackResponse message)
   \<and> gpt_generateResponse (\<lambda>m. Inr \<lparr>ok = False, json_body = body\<rparr>) message
       = Inr (generateFallbackResponse message)
   \<and> gpt_generateResponse (\<lambda>m. Inr \<lparr>ok = True, json_body = Inl e\<rparr>) message
       = Inr (generateFallbackResponse message)
   \<and> generateHuggingFaceResponse (\<lambda>m. Inl e) message = Inr (generateSmartFallback message)
   \<and> generateHuggingFaceResponse (\<lambda>m. Inr \<lparr>ok = False, json_body = body\<rparr>) message
       = Inr (generateSmartFallback message)
   \<and> generateHuggingFaceResponse (\<lambda>m. Inr \<lparr>ok = True, json_body = Inl e\<rparr>) message
       = Inr (generateSmartFallback message)"
  using generateFallbackResponse_canned [of message] generateSmartFallback_canned [of message]
    gpt_generateResponse_resolves [of net message]
    generateHuggingFaceResponse_resolves [of net message]
  by (simp only: gpt_failure_paths hf_failure_paths simp_thms)

section \<open>The provider registry\<close>

lemma newAIService_value:
  "newAIService env =
     Inr ((if falsyKey (VITE_GEMINI_API_KEY env) then []
           else [(''gemini'', \<lparr>getName = ''Gemini 1.5 Flash'',
                              generateResponse = gemini_generateResponse (geminiEndpoint env)\<rparr>)])
          @ [(''gpt'', \<lparr>getName = ''DialoGPT Large (Free)'',
                       generateResponse = gpt_generateResponse (huggingFaceEndpoint env)\<rparr>)]
          @ (if falsyKey (VITE_CLAUDE_API_KEY env) then []
             else [(''claude'', \<lparr>getName = ''Claude 3'',
                                generateResponse = claude_generateResponse (claudeEndpoint env)\<rparr>)]))"
  by (simp add: newAIService_def registerOrWarn_def tryCatch_def newGeminiProvider_def
        newGPTProvider_def newClaudeProvider_def)

lemma getProvider_resolves_iff:
  "(\<exists>provider. getProvider providers key = Inr provider) = (key \<in> fst ` set providers)"
proof -
  have "(map_of providers key \<noteq> None) = (key \<in> fst ` set providers)"
    by (simp add: map_of_eq_None_iff)
  then show ?thesis
    by (cases "map_of providers key") (simp_all add: getProvider_def)
qed

lemma getAvailableModels_keys: "map fst (getAvailableModels providers) = map fst providers"
  by (simp add: getAvailableModels_def case_prod_unfold comp_def)

lemma getAvailableModels_name:
  assumes "distinct (map fst providers)" "(key, name) \<in> set (getAvailableModels providers)"
  shows "\<exists>provider. getProvider providers key = Inr provider \<and> getName provider = name"
proof -
  from assms(2) obtain provider where "(key, provider) \<in> set providers" "name = getName provider"
    by (auto simp: getAvailableModels_def)
  with assms(1) have "map_of providers key = Some provider" by simp
  with \<open>name = getName provider\<close> show ?thesis by (simp add: getProvider_def)
qed

lemma getAvailableModels_set_new:
  "key \<notin> fst ` set providers \<Longrightarrow>
     getAvailableModels (AList.update key provider providers)
       = getAvailableModels providers @ [(key, getName provider)]"
  by (induction providers) (auto simp: getAvailableModels_def)

lemma getAvailableModels_listed_iff:
  "(key \<in> fst ` set (getAvailableModels registry))
     = (\<exists>provider. getProvider registry key = Inr provider)"
  using getAvailableModels_keys [of registry]
  by (metis getProvider_resolves_iff set_map)

lemma newAIService_root_value:
  "\<not> falsyKey (VITE_GEMINI_API_KEY env) \<Longrightarrow>
     \<exists>providers. newAIService_root env = Inr providers
       \<and> getAvailableModels providers
           = [(''gemini'', ''Gemini 1.5 Flash''), (''gpt'', ''GPT-4''), (''claude'', ''Claude 3'')]"
  by (simp add: newAIService_root_def newGeminiProvider_def newGPTProvider_root_def
        newClaudeProvider_root_def getAvailableModels_def)

lemma newAIService_listing:
  "\<exists>providers.
     newAIService env = Inr providers
     \<and> distinct (map fst providers)
     \<and> getAvailableModels providers =
         (if falsyKey (VITE_GEMINI_API_KEY env) then [] else [(''gemini'', ''Gemini 1.5 Flash'')])
         @ [(''gpt'', ''DialoGPT Large (Free)'')]
         @ (if falsyKey (VITE_CLAUDE_API_KEY env) then [] else [(''claude'', ''Claude 3'')])"
  by (simp add: newAIService_value getAvailableModels_def)

text \<open>
  Claim C6. \<open>getAvailableModels\<close> lists the keys of the registry in the registry's own
  order, each with the display name of its provider. The listed keys are exactly the keys
  that \<open>getProvider\<close> resolves, and (the keys of a \<open>Map\<close> being distinct) the name listed
  with a key is the name of the provider \<open>getProvider\<close> returns for it. The order is the
  order of registration: setting a key that is not yet in the registry puts its entry at
  the end of the list. So the registry of client/src/services/aiService.ts lists \<open>gemini\<close>
  (when its credential is there), \<open>gpt\<close>, and \<open>claude\<close> (when its credential is there), in
  this order, and the registry of src/services/aiService.ts, once built, lists \<open>gemini\<close>,
  \<open>gpt\<close>, \<open>claude\<close>.
\<close>

theorem available_models_registration_order:
  "map fst (getAvailableModels registry) = map fst registry
   \<and> (key \<in> fst ` set (getAvailableModels registry))
       = (\<exists>provider. getProvider registry key = Inr provider)
   \<and> (distinct (map fst registry) \<and> (key, name) \<in> set (getAvailableModels registry) \<longrightarrow>
        (\<exists>provider. getProvider registry key = Inr provider \<and> getName provider = name))
   \<and> (newKey \<notin> fst ` set registry \<longrightarrow>
        getAvailableModels (AList.update newKey newProvider registry)
          = getAvailableModels registry @ [(newKey, getName newProvider)])
   \<and> (\<exists>providers.
        newAIService env = Inr providers
        \<and> distinct (map fst providers)
        \<and> getAvailableModels providers =
            (if falsyKey (VITE_GEMINI_API_KEY env) then [] else [(''gemini'', ''Gemini 1.5 Flash'')])
            @ [(''gpt'', ''DialoGPT Large (Free)'')]
            @ (if falsyKey (VITE_CLAUDE_API_KEY env) then [] else [(''claude'', ''Claude 3'')]))
   \<and> (\<not> falsyKey (VITE_GEMINI_API_KEY env) \<longrightarrow>
        (\<exists>providers.
           newAIService_root env = Inr providers
           \<and> getAvailableModels providers
               = [(''gemini'', ''Gemini 1.5 Flash''), (''gpt'', ''GPT-4''), (''claude'', ''Claude 3'')]))"
  using getAvailableModels_keys [of registry] getAvailableModels_listed_iff [of key registry]
    getAvailableModels_name [of registry key name]
    getAvailableModels_set_new [of newKey registry newProvider]
    newAIService_listing [of env] newAIService_root_value [of env]
  by blast

text \<open>
  Claim C6 with both credentials: the keys come as registered, \<open>gemini\<close>, \<open>gpt\<close>,
  \<open>claude\<close>, which is not their alphabetical order, and a fourth key set afterwards comes
  last.
\<close>

theorem available_models_registration_order_witness:
  "\<exists>providers.
     newAIService exampleEnvWithKeys = Inr providers
     \<and> getAvailableModels providers =
         [(''gemini'', ''Gemini 1.5 Flash''), (''gpt'', ''DialoGPT Large (Free)''), (''claude'', ''Claude 3'')]
     \<and> (\<exists>provider. getProvider providers ''claude'' = Inr provider \<and> getName provider = ''Claude 3'')
     \<and> getAvailableModels
          (AList.update ''openai''
             \<lparr>getName = ''GPT-4'', generateResponse = claude_generateResponse (claudeEndpoint exampleEnvWithKeys)\<rparr> providers)
         = [(''gemini'', ''Gemini 1.5 Flash''), (''gpt'', ''DialoGPT Large (Free)''),
            (''claude'', ''Claude 3''), (''openai'', ''GPT-4'')]
     \<and> (\<exists>rootProviders.
          newAIService_root exampleEnvWithKeys = Inr rootProviders
          \<and> getAvailableModels rootProviders
              = [(''gemini'', ''Gemini 1.5 Flash''), (''gpt'', ''GPT-4''), (''claude'', ''Claude 3'')])"
proof -
  let ?new = "\<lparr>getName = ''GPT-4'', generateResponse = claude_generateResponse (claudeEndpoint exampleEnvWithKeys)\<rparr>"
  have keyed: "\<not> falsyKey (VITE_GEMINI_API_KEY exampleEnvWithKeys)"
    "\<not> falsyKey (VITE_CLAUDE_API_KEY exampleEnvWithKeys)"
    by (simp_all add: exampleEnvWithKeys_def)
  from available_models_registration_order [of "[]" "''claude''" "''Claude 3''" "''openai''" ?new exampleEnvWithKeys]
    keyed
  obtain providers where built: "newAIService exampleEnvWithKeys = Inr providers"
    and dist: "distinct (map fst providers)"
    and listed: "getAvailableModels providers =
         [(''gemini'', ''Gemini 1.5 Flash''), (''gpt'', ''DialoGPT Large (Free)''), (''claude'', ''Claude 3'')]"
    and root: "\<exists>rootProviders.
          newAIService_root exampleEnvWithKeys = Inr rootProviders
          \<and> getAvailableModels rootProviders
              = [(''gemini'', ''Gemini 1.5 Flash''), (''gpt'', ''GPT-4''), (''claude'', ''Claude 3'')]"
    by auto
  note inst = available_models_registration_order
                [of providers "''claude''" "''Claude 3''" "''openai''" ?new exampleEnvWithKeys]
  from inst listed have keys: "map fst providers = [''gemini'', ''gpt'', ''claude'']"
    by simp
  then have "set (map fst providers) = {''gemini'', ''gpt'', ''claude''}"
    by simp
  then have new: "''openai'' \<notin> fst ` set providers"
    by simp
  from listed have member: "(''claude'', ''Claude 3'') \<in> set (getAvailableModels providers)"
    by simp
  from inst dist member
  have name: "\<exists>provider. getProvider providers ''claude'' = Inr provider \<and> getName provider = ''Claude 3''"
    by blast
  from inst new listed
  have appended: "getAvailableModels (AList.update ''openai'' ?new providers)
         = [(''gemini'', ''Gemini 1.5 Flash''), (''gpt'', ''DialoGPT Large (Free)''),
            (''claude'', ''Claude 3''), (''openai'', ''GPT-4'')]"
    by simp
  from built listed name appended root show ?thesis by blast
qed

text \<open>
  Claim C2, as stated, fails on the registry of src/services/aiService.ts, which the claim
  also names: its constructor has no \<^verbatim>\<open>catch\<close>, and without the Gemini credential the
  construction of the registry itself fails with the error of the Gemini provider.
\<close>

theorem root_registry_construction_fails_counterexample:
  "falsyKey (VITE_GEMINI_API_KEY exampleEnv)
   \<and> newAIService_root exampleEnv
       = Inl (ErrorObj ''VITE_GEMINI_API_KEY environment variable is not set'')"
  by (simp add: newAIService_root_def newGeminiProvider_def exampleEnv_def)

text \<open>
  Claim C2, amended. In the registry of client/src/services/aiService.ts, whose constructor
  wraps every registration in \<^verbatim>\<open>try\<close>/\<^verbatim>\<open>catch\<close>, construction succeeds in every environment;
  a provider whose credential is missing or empty is left out: its key is not listed by
  \<open>getAvailableModels\<close>, and \<open>getProvider\<close> fails for it with the error
  \<open>AI model "key" not available. Please check your API keys.\<close> The registry of
  src/services/aiService.ts registers without \<^verbatim>\<open>catch\<close>: without the Gemini credential its
  construction fails.
\<close>

theorem missing_credential_omits_provider:
  "\<exists>providers.
     newAIService env = Inr providers
     \<and> (falsyKey (VITE_GEMINI_API_KEY env) \<longrightarrow>
          ''gemini'' \<notin> fst ` set (getAvailableModels providers)
          \<and> getProvider providers ''gemini'' =
              Inl (ErrorObj (''AI model '' @ [CHR 0x22] @ ''gemini'' @ [CHR 0x22]
                             @ '' not available. Please check your API keys.'')))
     \<and> (falsyKey (VITE_CLAUDE_API_KEY env) \<longrightarrow>
          ''claude'' \<notin> fst ` set (getAvailableModels providers)
          \<and> getProvider providers ''claude'' =
              Inl (ErrorObj (''AI model '' @ [CHR 0x22] @ ''claude'' @ [CHR 0x22]
                             @ '' not available. Please check your API keys.'')))
     \<and> (falsyKey (VITE_GEMINI_API_KEY env) \<longrightarrow>
          newAIService_root env
            = Inl (ErrorObj ''VITE_GEMINI_API_KEY environment variable is not set''))"
  by (simp add: newAIService_value getAvailableModels_def getProvider_def
        newAIService_root_def newGeminiProvider_def)

text \<open>
  Claim C2, amended, in the environment without credentials: only \<open>gpt\<close> is listed.
\<close>

theorem missing_credential_omits_provider_witness:
  "falsyKey (VITE_GEMINI_API_KEY exampleEnv) \<and> falsyKey (VITE_CLAUDE_API_KEY exampleEnv)
   \<and> (\<exists>providers.
        newAIService exampleEnv = Inr providers
        \<and> getAvailableModels providers = [(''gpt'', ''DialoGPT Large (Free)'')]
        \<and> getProvider providers ''gemini'' =
              Inl (ErrorObj (''AI model '' @ [CHR 0x22] @ ''gemini'' @ [CHR 0x22]
                             @ '' not available. Please check your API keys.''))
        \<and> getProvider providers ''claude'' =
              Inl (ErrorObj (''AI model '' @ [CHR 0x22] @ ''claude'' @ [CHR 0x22]
                             @ '' not available. Please check your API keys.'')))"
proof -
  have g: "falsyKey (VITE_GEMINI_API_KEY exampleEnv)" and c: "falsyKey (VITE_CLAUDE_API_KEY exampleEnv)"
    by (simp_all add: exampleEnv_def)
  from missing_credential_omits_provider [of exampleEnv] g c
  obtain providers where built: "newAIService exampleEnv = Inr providers"
    and gemini: "getProvider providers ''gemini'' =
              Inl (ErrorObj (''AI model '' @ [CHR 0x22] @ ''gemini'' @ [CHR 0x22]
                             @ '' not available. Please check your API keys.''))"
    and claude: "getProvider providers ''claude'' =
              Inl (ErrorObj (''AI model '' @ [CHR 0x22] @ ''claude'' @ [CHR 0x22]
                             @ '' not available. Please check your API keys.''))"
    by blast
  from built g c have "getAvailableModels providers = [(''gpt'', ''DialoGPT Large (Free)'')]"
    by (auto simp: newAIService_value getAvailableModels_def)
  with g c built gemini claude show ?thesis by blast
qed

section \<open>Sending a message\<close>

text \<open>
  Claim C9. The first thing \<open>handleSendMessage\<close> does is the state update that appends the
  user message (role \<open>user\<close>, the text as sent, the attachments as given) and sets the
  loading flag; the provider is looked up after that, and \<open>generateResponse\<close> is called
  after the lookup. When the lookup fails, or \<open>generateResponse\<close> rejects, the only further
  update clears the loading flag and sets the error string (the message of the error, or
  \<open>Failed to get AI response\<close> for a thrown value that is no error): the final state still
  holds the user message at the end of the sequence.
\<close>

theorem send_keeps_user_message_on_failure:
  "\<exists>appended rest.
     appended = \<lparr>msg_id = userMessageId fresh, msg_type = User, msg_text = messageText,
                 msg_timestamp = userMessageTime fresh, msg_model = None,
                 msg_attachments = attachments\<rparr>
     \<and> handleSendMessage aiService aiModel fresh st messageText attachments =
         SetChatState (st\<lparr>messages := messages st @ [appended], isLoading := True, error := None\<rparr>)
         # GetProvider aiModel # rest
     \<and> (\<forall>e. aiService aiModel = Inl e \<longrightarrow>
          rest = [SetChatState
                    (st\<lparr>messages := messages st @ [appended], isLoading := False,
                        error := Some (case e of ErrorObj m \<Rightarrow> m
                                       | NonError \<Rightarrow> ''Failed to get AI response'')\<rparr>)])
     \<and> (\<forall>provider e.
          aiService aiModel = Inr provider
          \<and> generateResponse provider (contextualMessage messageText attachments) = Inl e \<longrightarrow>
          rest = [GenerateResponse (contextualMessage messageText attachments),
                  SetChatState
                    (st\<lparr>messages := messages st @ [appended], isLoading := False,
                        error := Some (case e of ErrorObj m \<Rightarrow> m
                                       | NonError \<Rightarrow> ''Failed to get AI response'')\<rparr>)])
     \<and> (\<forall>e. aiService aiModel = Inl e
              \<or> (\<exists>provider. aiService aiModel = Inr provider
                    \<and> generateResponse provider (contextualMessage messageText attachments) = Inl e) \<longrightarrow>
          finalState st (handleSendMessage aiService aiModel fresh st messageText attachments)
            = st\<lparr>messages := messages st @ [appended], isLoading := False,
                  error := Some (case e of ErrorObj m \<Rightarrow> m
                                 | NonError \<Rightarrow> ''Failed to get AI response'')\<rparr>)"
proof -
  have text_of: "errorText e = (case e of ErrorObj m \<Rightarrow> m | NonError \<Rightarrow> ''Failed to get AI response'')"
    for e
    by (cases e) simp_all
  show ?thesis
    by (cases "aiService aiModel")
       (auto simp: handleSendMessage_def userMessage_def text_of Let_def split: sum.splits)
qed

text \<open>
  Claim C9 on two runs from the welcome-only state. In the first the key \<open>gemini\<close> is
  missing from the registry built without credentials. In the second the credentials are
  there and the fetch of the Gemini provider fails with \<open>Failed to fetch\<close>, which its
  \<open>generateResponse\<close> turns into the network error message.
\<close>

theorem send_keeps_user_message_on_failure_witness:
  "handleSendMessage exampleService ''gemini'' exampleFresh exampleChat ''hi'' None =
     [SetChatState
        \<lparr>messages = [exampleWelcome,
                      \<lparr>msg_id = ''u2'', msg_type = User, msg_text = ''hi'', msg_timestamp = 3,
                       msg_model = None, msg_attachments = None\<rparr>],
         isLoading = True, error = None\<rparr>,
      GetProvider ''gemini'',
      SetChatState
        \<lparr>messages = [exampleWelcome,
                      \<lparr>msg_id = ''u2'', msg_type = User, msg_text = ''hi'', msg_timestamp = 3,
                       msg_model = None, msg_attachments = None\<rparr>],
         isLoading = False,
         error = Some (''AI model '' @ [CHR 0x22] @ ''gemini'' @ [CHR 0x22]
                       @ '' not available. Please check your API keys.'')\<rparr>]
   \<and> handleSendMessage exampleServiceWithKeys ''gemini'' exampleFresh exampleChat ''hi'' None =
     [SetChatState
        \<lparr>messages = [exampleWelcome,
                      \<lparr>msg_id = ''u2'', msg_type = User, msg_text = ''hi'', msg_timestamp = 3,
                       msg_model = None, msg_attachments = None\<rparr>],
         isLoading = True, error = None\<rparr>,
      GetProvider ''gemini'',
      GenerateResponse ''hi'',
      SetChatState
        \<lparr>messages = [exampleWelcome,
                      \<lparr>msg_id = ''u2'', msg_type = User, msg_text = ''hi'', msg_timestamp = 3,
                       msg_model = None, msg_attachments = None\<rparr>],
         isLoading = False,
         error = Some ''Network error. Please check your internet connection.''\<rparr>]
   \<and> finalState exampleChat
        (handleSendMessage exampleServiceWithKeys ''gemini'' exampleFresh exampleChat ''hi'' None)
      = \<lparr>messages = [exampleWelcome,
                      \<lparr>msg_id = ''u2'', msg_type = User, msg_text = ''hi'', msg_timestamp = 3,
                       msg_model = None, msg_attachments = None\<rparr>],
         isLoading = False,
         error = Some ''Network error. Please check your internet connection.''\<rparr>"
proof -
  let ?gemini = "\<lparr>getName = ''Gemini 1.5 Flash'',
                  generateResponse = gemini_generateResponse (geminiEndpoint exampleEnvWithKeys)\<rparr>"
  have unresolved: "exampleService ''gemini'' =
      Inl (ErrorObj (''AI model '' @ [CHR 0x22] @ ''gemini'' @ [CHR 0x22]
                     @ '' not available. Please check your API keys.''))"
    by (simp add: exampleService_def newAIService_value getProvider_def exampleEnv_def)
  have resolved: "exampleServiceWithKeys ''gemini'' = Inr ?gemini"
    by (simp add: exampleServiceWithKeys_def newAIService_value getProvider_def
          exampleEnvWithKeys_def)
  have prompt: "contextualMessage ''hi'' None = ''hi''"
    by (simp add: contextualMessage_def)
  have rejected: "generateResponse ?gemini (contextualMessage ''hi'' None)
                    = Inl (ErrorObj ''Network error. Please check your internet connection.'')"
    by (simp add: prompt gemini_generateResponse_def tryCatch_def exampleEnvWithKeys_def)
  from send_keeps_user_message_on_failure
         [of exampleFresh "''hi''" None exampleService "''gemini''" exampleChat] unresolved
  have first: "handleSendMessage exampleService ''gemini'' exampleFresh exampleChat ''hi'' None =
     [SetChatState
        (exampleChat\<lparr>messages := messages exampleChat @
            [\<lparr>msg_id = userMessageId exampleFresh, msg_type = User, msg_text = ''hi'',
              msg_timestamp = userMessageTime exampleFresh, msg_model = None,
              msg_attachments = None\<rparr>],
          isLoading := True, error := None\<rparr>),
      GetProvider ''gemini'',
      SetChatState
        (exampleChat\<lparr>messages := messages exampleChat @
            [\<lparr>msg_id = userMessageId exampleFresh, msg_type = User, msg_text = ''hi'',
              msg_timestamp = userMessageTime exampleFresh, msg_model = None,
              msg_attachments = None\<rparr>],
          isLoading := False,
          error := Some (''AI model '' @ [CHR 0x22] @ ''gemini'' @ [CHR 0x22]
                         @ '' not available. Please check your API keys.'')\<rparr>)]"
    by auto
  from send_keeps_user_message_on_failure
         [of exampleFresh "''hi''" None exampleServiceWithKeys "''gemini''" exampleChat]
       resolved rejected
  have second: "handleSendMessage exampleServiceWithKeys ''gemini'' exampleFresh exampleChat ''hi'' None =
     [SetChatState
        (exampleChat\<lparr>messages := messages exampleChat @
            [\<lparr>msg_id = userMessageId exampleFresh, msg_type = User, msg_text = ''hi'',
              msg_timestamp = userMessageTime exampleFresh, msg_model = None,
              msg_attachments = None\<rparr>],
          isLoading := True, error := None\<rparr>),
      GetProvider ''gemini'',
      GenerateResponse (contextualMessage ''hi'' None),
      SetChatState
        (exampleChat\<lparr>messages := messages exampleChat @
            [\<lparr>msg_id = userMessageId exampleFresh, msg_type = User, msg_text = ''hi'',
              msg_timestamp = userMessageTime exampleFresh, msg_model = None,
              msg_attachments = None\<rparr>],
          isLoading := False,
          error := Some ''Network error. Please check your internet connection.''\<rparr>)]"
    by auto
  from first second prompt show ?thesis
    by (simp add: exampleChat_def exampleFresh_def)
qed

lemma attachmentContextEntry_inlined:
  "att_content att = Some content \<Longrightarrow> content \<noteq> [] \<Longrightarrow> prefix ''text/'' (att_type att) \<Longrightarrow>
     attachmentContextEntry att =
       ''File '' @ [CHR 0x22] @ att_name att @ [CHR 0x22] @ '' content:'' @ [CHR 0x0A] @ content"
  by (simp add: attachmentContextEntry_def startsWith_prefix)

lemma attachmentContextEntry_reference:
  "att_content att = None \<or> att_content att = Some [] \<or> \<not> prefix ''text/'' (att_type att) \<Longrightarrow>
     attachmentContextEntry att = ''File attached: '' @ att_name att @ '' ('' @ att_type att @ '')''"
  by (auto simp: attachmentContextEntry_def startsWith_prefix split: option.splits)

lemma contextualMessage_prefix: "prefix messageText (contextualMessage messageText attachments)"
  by (simp add: contextualMessage_def split: option.splits)

lemma contextualMessage_Cons:
  "contextualMessage messageText (Some (att # atts)) =
     messageText @ [CHR 0x0A, CHR 0x0A] @ ''Attached files:'' @ [CHR 0x0A]
       @ attachmentContextEntry att
       @ concat (map (\<lambda>a. [CHR 0x0A, CHR 0x0A] @ attachmentContextEntry a) atts)"
  by (simp add: contextualMessage_def joinStr_Cons comp_def)

lemma handleSendMessage_prompt:
  "aiService aiModel = Inr provider \<Longrightarrow>
     GenerateResponse (contextualMessage messageText attachments)
       \<in> set (handleSendMessage aiService aiModel fresh st messageText attachments)"
  by (simp add: handleSendMessage_def Let_def)

text \<open>
  Claim C5, as stated, fails. The attachment below is textual (its type starts with
  \<open>text/\<close>) and its content is present, the empty string. By the claim it is inlined; the
  code tests the content for truthiness, and the prompt carries the reference line of the
  attachment instead of a block that inlines the (empty) content.
\<close>

theorem empty_text_content_not_inlined_counterexample:
  "att_content exampleEmptyTextFile = Some []
   \<and> prefix ''text/'' (att_type exampleEmptyTextFile)
   \<and> contextualMessage ''Summarize'' (Some [exampleEmptyTextFile])
       = ''Summarize'' @ [CHR 0x0A, CHR 0x0A] @ ''Attached files:'' @ [CHR 0x0A]
           @ ''File attached: a.txt (text/plain)''
   \<and> contextualMessage ''Summarize'' (Some [exampleEmptyTextFile])
       \<noteq> ''Summarize'' @ [CHR 0x0A, CHR 0x0A] @ ''Attached files:'' @ [CHR 0x0A]
           @ ''File '' @ [CHR 0x22] @ ''a.txt'' @ [CHR 0x22] @ '' content:'' @ [CHR 0x0A] @ []"
  by (simp add: contextualMessage_def attachmentContextEntry_def exampleEmptyTextFile_def)

text \<open>
  Claim C5, amended. The prompt passed to the provider starts with the original text.
  Without attachments (none given, or an empty list) it is the original text. With
  attachments it is the original text, an empty line (two line feeds), the constant header
  line \<open>Attached files:\<close> ended by a line feed, and one block per attachment, in order, two
  blocks separated by an empty line (two line feeds). The block of an attachment whose type
  starts with \<open>text/\<close> and whose content is present and not the empty string is the label
  line \<open>File "name" content:\<close>, a line feed and the literal content. Every other attachment
  (a textual one whose content is absent or empty, and one of another type whatever its
  content) gives the reference line \<open>File attached: name (type)\<close>, without any content.
  This text is the argument of \<open>generateResponse\<close> whenever the provider resolves.
\<close>

theorem effective_prompt_structure:
  "prefix messageText (contextualMessage messageText attachments)
   \<and> contextualMessage messageText None = messageText
   \<and> contextualMessage messageText (Some []) = messageText
   \<and> contextualMessage messageText (Some (att # atts)) =
       messageText @ [CHR 0x0A, CHR 0x0A] @ ''Attached files:'' @ [CHR 0x0A]
         @ attachmentContextEntry att
         @ concat (map (\<lambda>a. [CHR 0x0A, CHR 0x0A] @ attachmentContextEntry a) atts)
   \<and> (att_content a = Some content \<and> content \<noteq> [] \<and> prefix ''text/'' (att_type a) \<longrightarrow>
        attachmentContextEntry a =
          ''File '' @ [CHR 0x22] @ att_name a @ [CHR 0x22] @ '' content:'' @ [CHR 0x0A] @ content)
   \<and> (att_content a = None \<or> att_content a = Some [] \<or> \<not> prefix ''text/'' (att_type a) \<longrightarrow>
        attachmentContextEntry a = ''File attached: '' @ att_name a @ '' ('' @ att_type a @ '')'')
   \<and> (aiService aiModel = Inr provider \<longrightarrow>
        GenerateResponse (contextualMessage messageText attachments)
          \<in> set (handleSendMessage aiService aiModel fresh st messageText attachments))"
proof -
  have "contextualMessage messageText None = messageText"
    and "contextualMessage messageText (Some []) = messageText"
    by (simp_all add: contextualMessage_def)
  then show ?thesis
    using contextualMessage_prefix [of messageText attachments]
      contextualMessage_Cons [of messageText att atts]
      attachmentContextEntry_inlined [of a content]
      attachmentContextEntry_reference [of a]
      handleSendMessage_prompt [of aiService aiModel provider messageText attachments fresh st]
    by blast
qed

text \<open>
  Claim C5, amended, on the prompt \<open>Summarize\<close> with the text file \<open>a.txt\<close> of content \<open>X\<close>
  and the image \<open>a.png\<close> without content.
\<close>

theorem effective_prompt_structure_witness:
  "contextualMessage ''Summarize'' (Some [exampleTextFile, exampleImage]) =
     ''Summarize'' @ [CHR 0x0A, CHR 0x0A] @ ''Attached files:'' @ [CHR 0x0A]
       @ ''File '' @ [CHR 0x22] @ ''a.txt'' @ [CHR 0x22] @ '' content:'' @ [CHR 0x0A] @ ''X''
       @ [CHR 0x0A, CHR 0x0A] @ ''File attached: a.png (image/png)''
   \<and> GenerateResponse (contextualMessage ''Summarize'' (Some [exampleTextFile, exampleImage]))
       \<in> set (handleSendMessage exampleService ''gpt'' exampleFresh
                 \<lparr>messages = [], isLoading = False, error = None\<rparr> ''Summarize''
                 (Some [exampleTextFile, exampleImage]))"
proof -
  have textual: "att_content exampleTextFile = Some ''X'' \<and> ''X'' \<noteq> [] \<and> prefix ''text/'' (att_type exampleTextFile)"
    by (simp add: exampleTextFile_def)
  have image: "att_content exampleImage = None \<or> att_content exampleImage = Some [] \<or> \<not> prefix ''text/'' (att_type exampleImage)"
    by (simp add: exampleImage_def)
  obtain provider where svc: "exampleService ''gpt'' = Inr provider"
    by (simp add: exampleService_def newAIService_def registerOrWarn_def tryCatch_def
          newGeminiProvider_def newGPTProvider_def newClaudeProvider_def exampleEnv_def
          getProvider_def)
  from textual effective_prompt_structure
         [of "''Summarize''" "Some [exampleTextFile, exampleImage]" exampleTextFile "[exampleImage]"
             exampleTextFile "''X''" exampleService "''gpt''" provider exampleFresh
             "\<lparr>messages = [], isLoading = False, error = None\<rparr>"]
  have one: "attachmentContextEntry exampleTextFile =
               ''File '' @ [CHR 0x22] @ att_name exampleTextFile @ [CHR 0x22] @ '' content:'' @ [CHR 0x0A] @ ''X''"
    and whole: "contextualMessage ''Summarize'' (Some [exampleTextFile, exampleImage]) =
       ''Summarize'' @ [CHR 0x0A, CHR 0x0A] @ ''Attached files:'' @ [CHR 0x0A]
         @ attachmentContextEntry exampleTextFile
         @ concat (map (\<lambda>a. [CHR 0x0A, CHR 0x0A] @ attachmentContextEntry a) [exampleImage])"
    and sent: "GenerateResponse (contextualMessage ''Summarize'' (Some [exampleTextFile, exampleImage]))
       \<in> set (handleSendMessage exampleService ''gpt'' exampleFresh
                 \<lparr>messages = [], isLoading = False, error = None\<rparr> ''Summarize''
                 (Some [exampleTextFile, exampleImage]))"
    using svc by blast+
  from image effective_prompt_structure
         [of "''Summarize''" None exampleImage "[]" exampleImage "''X''" exampleService "''gpt''"
             provider exampleFresh "\<lparr>messages = [], isLoading = False, error = None\<rparr>"]
  have two: "attachmentContextEntry exampleImage =
               ''File attached: '' @ att_name exampleImage @ '' ('' @ att_type exampleImage @ '')''"
    by blast
  from one two whole sent show ?thesis
    by (simp add: exampleTextFile_def exampleImage_def)
qed

section \<open>Regenerating the last response\<close>

lemma filter_butlast:
  "xs \<noteq> [] \<Longrightarrow>
     filter P (butlast xs) = (if P (last xs) then butlast (filter P xs) else filter P xs)"
  by (cases xs rule: rev_cases) simp_all

lemma onRegenerate_last:
  "onRegenerate st index \<Longrightarrow>
     messages st \<noteq> [] \<and> msg_type (last (messages st)) = Ai
     \<and> last (messages st) = messages st ! index"
proof -
  assume offered: "onRegenerate st index"
  then have nonempty: "messages st \<noteq> []" and "index = length (messages st) - 1"
    and ai: "msg_type (messages st ! index) = Ai"
    by (auto simp: onRegenerate_def)
  then have "last (messages st) = messages st ! index"
    by (simp add: last_conv_nth)
  with nonempty ai show ?thesis by simp
qed

text \<open>
  Claim C1. For every message sequence that holds a user message, \<open>handleRegenerate\<close>
  finds the most recent user message (no user message follows it). Its first state update
  removes the most recent assistant message exactly when the sequence ends with one: then
  the sequence is the updated one followed by that assistant message, and otherwise the
  assistant messages of the sequence are all kept. The update clears the error and leaves
  the loading flag. The handler then runs \<open>handleSendMessage\<close> on the updated state with the
  text of that user message and no attachments: a user message with that text and without
  attachments is appended, the provider is looked up, and the prompt passed to a resolved
  provider is that text alone. The handler is passed as \<open>onRegenerate\<close> only to a last
  message of type \<open>ai\<close>, so wherever it is offered the sequence ends with the assistant
  message that the update removes.
\<close>

theorem regenerate_resends_last_user_text:
  assumes "\<exists>m\<in>set (messages st). msg_type m = User"
  shows "\<exists>before lastUserMessage after st' resent rest.
           messages st = before @ lastUserMessage # after
           \<and> msg_type lastUserMessage = User
           \<and> (\<forall>m\<in>set after. msg_type m \<noteq> User)
           \<and> resent = \<lparr>msg_id = userMessageId fresh, msg_type = User,
                        msg_text = msg_text lastUserMessage,
                        msg_timestamp = userMessageTime fresh, msg_model = None,
                        msg_attachments = None\<rparr>
           \<and> handleRegenerate aiService aiModel fresh st =
               SetChatState st'
               # SetChatState (st'\<lparr>messages := messages st' @ [resent], isLoading := True,
                                  error := None\<rparr>)
               # GetProvider aiModel # rest
           \<and> handleRegenerate aiService aiModel fresh st =
               SetChatState st'
               # handleSendMessage aiService aiModel fresh st' (msg_text lastUserMessage) None
           \<and> (\<forall>provider. aiService aiModel = Inr provider \<longrightarrow>
                 hd rest = GenerateResponse (msg_text lastUserMessage))
           \<and> error st' = None
           \<and> isLoading st' = isLoading st
           \<and> filter (\<lambda>m. msg_type m = Ai) (messages st') =
               (if msg_type (last (messages st)) = Ai
                then butlast (filter (\<lambda>m. msg_type m = Ai) (messages st))
                else filter (\<lambda>m. msg_type m = Ai) (messages st))
           \<and> (msg_type (last (messages st)) = Ai \<longrightarrow>
                 messages st = messages st' @ [last (messages st)])
           \<and> (onRegenerate st index \<longrightarrow>
                 msg_type (messages st ! index) = Ai
                 \<and> messages st = messages st' @ [messages st ! index])"
proof -
  let ?st' = "st\<lparr>messages := butlast (messages st), error := None\<rparr>"
  from assms have "find (\<lambda>msg. msg_type msg = User) (rev (messages st)) \<noteq> None"
    by (simp add: find_rev_None)
  then obtain m where found: "find (\<lambda>msg. msg_type msg = User) (rev (messages st)) = Some m"
    by blast
  from find_rev_Some [OF found] obtain before after
    where split: "messages st = before @ m # after" "msg_type m = User"
      "\<forall>x\<in>set after. msg_type x \<noteq> User"
    by blast
  from split(1) have nonempty: "messages st \<noteq> []" by auto
  have run: "handleRegenerate aiService aiModel fresh st =
               SetChatState ?st' #
               handleSendMessage aiService aiModel fresh ?st' (msg_text m) None"
    by (simp add: handleRegenerate_def found Let_def)
  obtain rest where
    sent: "handleSendMessage aiService aiModel fresh ?st' (msg_text m) None =
             SetChatState (?st'\<lparr>messages := messages ?st' @
                 [\<lparr>msg_id = userMessageId fresh, msg_type = User, msg_text = msg_text m,
                   msg_timestamp = userMessageTime fresh, msg_model = None,
                   msg_attachments = None\<rparr>], isLoading := True, error := None\<rparr>)
             # GetProvider aiModel # rest"
    and prompt: "\<forall>provider. aiService aiModel = Inr provider \<longrightarrow>
                   hd rest = GenerateResponse (msg_text m)"
    by (cases "aiService aiModel")
       (simp_all add: handleSendMessage_def userMessage_def contextualMessage_def Let_def)
  from nonempty have snoc: "messages st = butlast (messages st) @ [last (messages st)]"
    by simp
  have kept: "filter (\<lambda>m. msg_type m = Ai) (messages ?st') =
               (if msg_type (last (messages st)) = Ai
                then butlast (filter (\<lambda>m. msg_type m = Ai) (messages st))
                else filter (\<lambda>m. msg_type m = Ai) (messages st))"
    using filter_butlast [OF nonempty, of "\<lambda>m. msg_type m = Ai"] by simp
  have offered: "onRegenerate st index \<longrightarrow>
                 msg_type (messages st ! index) = Ai
                 \<and> messages st = messages ?st' @ [messages st ! index]"
    using onRegenerate_last [of st index] snoc by auto
  have "messages st = before @ m # after
        \<and> msg_type m = User
        \<and> (\<forall>x\<in>set after. msg_type x \<noteq> User)
        \<and> \<lparr>msg_id = userMessageId fresh, msg_type = User, msg_text = msg_text m,
            msg_timestamp = userMessageTime fresh, msg_model = None, msg_attachments = None\<rparr>
           = \<lparr>msg_id = userMessageId fresh, msg_type = User, msg_text = msg_text m,
              msg_timestamp = userMessageTime fresh, msg_model = None, msg_attachments = None\<rparr>
        \<and> handleRegenerate aiService aiModel fresh st =
            SetChatState ?st'
            # SetChatState (?st'\<lparr>messages := messages ?st' @
                 [\<lparr>msg_id = userMessageId fresh, msg_type = User, msg_text = msg_text m,
                   msg_timestamp = userMessageTime fresh, msg_model = None,
                   msg_attachments = None\<rparr>], isLoading := True, error := None\<rparr>)
            # GetProvider aiModel # rest
        \<and> handleRegenerate aiService aiModel fresh st =
            SetChatState ?st' # handleSendMessage aiService aiModel fresh ?st' (msg_text m) None
        \<and> (\<forall>provider. aiService aiModel = Inr provider \<longrightarrow>
              hd rest = GenerateResponse (msg_text m))
        \<and> error ?st' = None
        \<and> isLoading ?st' = isLoading st
        \<and> filter (\<lambda>m. msg_type m = Ai) (messages ?st') =
            (if msg_type (last (messages st)) = Ai
             then butlast (filter (\<lambda>m. msg_type m = Ai) (messages st))
             else filter (\<lambda>m. msg_type m = Ai) (messages st))
        \<and> (msg_type (last (messages st)) = Ai \<longrightarrow>
              messages st = messages ?st' @ [last (messages st)])
        \<and> (onRegenerate st index \<longrightarrow>
              msg_type (messages st ! index) = Ai
              \<and> messages st = messages ?st' @ [messages st ! index])"
    using split run sent prompt kept offered snoc by simp
  then show ?thesis by blast
qed

text \<open>
  Claim C1 on the conversation \<open>[user: hi, assistant: hello]\<close>, where the handler is
  offered on the assistant message at position 1: the assistant message is removed, \<open>hi\<close>
  is sent again as a user message without attachments, and the response is appended.
\<close>

theorem regenerate_resends_last_user_text_witness:
  "(\<exists>m\<in>set (messages \<lparr>messages = [exampleUserHi, exampleAssistantHello], isLoading = False, error = None\<rparr>).
      msg_type m = User)
   \<and> onRegenerate \<lparr>messages = [exampleUserHi, exampleAssistantHello], isLoading = False, error = None\<rparr> 1
   \<and> handleRegenerate exampleService ''gpt'' exampleFresh
        \<lparr>messages = [exampleUserHi, exampleAssistantHello], isLoading = False, error = None\<rparr>
      = [SetChatState \<lparr>messages = [exampleUserHi], isLoading = False, error = None\<rparr>,
         SetChatState
           \<lparr>messages = [exampleUserHi,
                         \<lparr>msg_id = ''u2'', msg_type = User, msg_text = ''hi'', msg_timestamp = 3,
                          msg_model = None, msg_attachments = None\<rparr>],
            isLoading = True, error = None\<rparr>,
         GetProvider ''gpt'',
         GenerateResponse ''hi'',
         SetChatState
           \<lparr>messages = [exampleUserHi,
                         \<lparr>msg_id = ''u2'', msg_type = User, msg_text = ''hi'', msg_timestamp = 3,
                          msg_model = None, msg_attachments = None\<rparr>,
                         \<lparr>msg_id = ''a2'', msg_type = Ai,
                          msg_text = ''Hello! How can I help you today?'', msg_timestamp = 4,
                          msg_model = Some ''DialoGPT Large (Free)'', msg_attachments = None\<rparr>],
            isLoading = False, error = None\<rparr>]"
proof -
  let ?st = "\<lparr>messages = [exampleUserHi, exampleAssistantHello], isLoading = False, error = None\<rparr>"
  have h: "\<exists>m\<in>set (messages ?st). msg_type m = User"
    by (simp add: exampleUserHi_def)
  have gate: "onRegenerate ?st 1"
    by (simp add: onRegenerate_def exampleAssistantHello_def)
  from regenerate_resends_last_user_text [OF h, of exampleFresh exampleService "''gpt''" 1]
  obtain before m after st' rest where
    split: "messages ?st = before @ m # after" "msg_type m = User"
      "\<forall>x\<in>set after. msg_type x \<noteq> User"
    and run: "handleRegenerate exampleService ''gpt'' exampleFresh ?st =
               SetChatState st' #
               handleSendMessage exampleService ''gpt'' exampleFresh st' (msg_text m) None"
    and fields: "error st' = None" "isLoading st' = isLoading ?st"
    and removed: "onRegenerate ?st 1 \<longrightarrow>
                    msg_type (messages ?st ! 1) = Ai
                    \<and> messages ?st = messages st' @ [messages ?st ! 1]"
    by blast
  have "m = exampleUserHi"
    using split
    by (auto simp: Cons_eq_append_conv append_eq_Cons_conv exampleAssistantHello_def
          exampleUserHi_def)
  moreover from removed gate have "messages st' = [exampleUserHi]"
    by simp
  with fields have "st' = \<lparr>messages = [exampleUserHi], isLoading = False, error = None\<rparr>"
    by (cases st') simp
  ultimately have run': "handleRegenerate exampleService ''gpt'' exampleFresh ?st
      = SetChatState \<lparr>messages = [exampleUserHi], isLoading = False, error = None\<rparr> #
        handleSendMessage exampleService ''gpt'' exampleFresh
          \<lparr>messages = [exampleUserHi], isLoading = False, error = None\<rparr> ''hi'' None"
    using run by (simp add: exampleUserHi_def)
  have sent: "handleSendMessage exampleService ''gpt'' exampleFresh
          \<lparr>messages = [exampleUserHi], isLoading = False, error = None\<rparr> ''hi'' None
      = [SetChatState
           \<lparr>messages = [exampleUserHi,
                         \<lparr>msg_id = ''u2'', msg_type = User, msg_text = ''hi'', msg_timestamp = 3,
                          msg_model = None, msg_attachments = None\<rparr>],
            isLoading = True, error = None\<rparr>,
         GetProvider ''gpt'',
         GenerateResponse ''hi'',
         SetChatState
           \<lparr>messages = [exampleUserHi,
                         \<lparr>msg_id = ''u2'', msg_type = User, msg_text = ''hi'', msg_timestamp = 3,
                          msg_model = None, msg_attachments = None\<rparr>,
                         \<lparr>msg_id = ''a2'', msg_type = Ai,
                          msg_text = ''Hello! How can I help you today?'', msg_timestamp = 4,
                          msg_model = Some ''DialoGPT Large (Free)'', msg_attachments = None\<rparr>],
            isLoading = False, error = None\<rparr>]"
    by (simp add: handleSendMessage_def userMessage_def aiMessage_def exampleService_def
          newAIService_value getProvider_def contextualMessage_def exampleEnv_def
          exampleFresh_def gpt_generateResponse_def tryCatch_def generateFallbackResponse_def
          toLowerCase_def Let_def)
  from h gate run' sent show ?thesis by simp
qed

text \<open>
  Claim C8. On a message sequence without any user message \<open>handleRegenerate\<close> does
  nothing: no state update, no provider lookup and no call of \<open>generateResponse\<close>, so the
  state is the one it started from.
\<close>

theorem regenerate_without_user_message_noop:
  assumes "\<forall>m\<in>set (messages st). msg_type m \<noteq> User"
  shows "handleRegenerate aiService aiModel fresh st = []
         \<and> finalState st (handleRegenerate aiService aiModel fresh st) = st"
proof -
  from assms have "find (\<lambda>msg. msg_type msg = User) (rev (messages st)) = None"
    by (simp add: find_rev_None)
  then show ?thesis
    by (simp add: handleRegenerate_def)
qed

text \<open>
  Claim C8 on a conversation that holds the welcome message only.
\<close>

theorem regenerate_without_user_message_noop_witness:
  "msg_type exampleWelcome \<noteq> User
   \<and> handleRegenerate exampleService ''gpt'' exampleFresh exampleChat = []
   \<and> finalState exampleChat (handleRegenerate exampleService ''gpt'' exampleFresh exampleChat)
       = exampleChat"
proof -
  have h: "\<forall>m\<in>set (messages exampleChat). msg_type m \<noteq> User"
    by (simp add: exampleChat_def exampleWelcome_def)
  show ?thesis
    using h regenerate_without_user_message_noop [OF h, of exampleService "''gpt''" exampleFresh]
    by (simp add: exampleChat_def)
qed

section \<open>Conversation titles\<close>

lemma title_first_user:
  assumes "msgs = before @ m # after" "\<forall>x\<in>set before. msg_type x \<noteq> User" "msg_type m = User"
  shows "generateConversationTitle msgs =
           (if 30 < length (msg_text m) then take 30 (msg_text m) @ ''...'' else msg_text m)"
proof -
  from assms have "find (\<lambda>m. msg_type m = User) msgs = Some m"
    by (simp add: find_first)
  then show ?thesis by (simp add: generateConversationTitle_def)
qed

lemma title_no_user:
  "\<forall>x\<in>set msgs. msg_type x \<noteq> User \<Longrightarrow> generateConversationTitle msgs = ''New Conversation''"
proof -
  assume "\<forall>x\<in>set msgs. msg_type x \<noteq> User"
  then have "find (\<lambda>m. msg_type m = User) msgs = None"
    by (auto simp: find_None_iff)
  then show ?thesis by (simp add: generateConversationTitle_def)
qed

lemma title_append:
  "\<exists>x\<in>set msgs. msg_type x = User \<Longrightarrow>
     generateConversationTitle (msgs @ later) = generateConversationTitle msgs"
  by (simp add: generateConversationTitle_def find_append_found)

lemma conversations_addWelcomeMessage [simp]:
  "conversations (addWelcomeMessage fresh app) = conversations app"
  by (simp add: addWelcomeMessage_def)

lemma saved_conversation_member:
  "c \<in> set (case find (\<lambda>x. conv_id x = conv_id c) cs of
              Some existing \<Rightarrow> map (\<lambda>x. if conv_id x = conv_id c then c else x) cs
            | None \<Rightarrow> c # cs)"
proof (cases "find (\<lambda>x. conv_id x = conv_id c) cs")
  case None
  then show ?thesis by simp
next
  case (Some existing)
  then have "existing \<in> set cs" "conv_id existing = conv_id c"
    by (auto simp: find_Some_iff)
  then have "c \<in> (\<lambda>x. if conv_id x = conv_id c then c else x) ` set cs"
    by (intro image_eqI [of _ _ existing]) simp_all
  with Some show ?thesis by simp
qed

lemma handleNewConversation_saves:
  assumes "messages (chatState app) \<noteq> []"
  shows "\<lparr>conv_id = idOrFresh (currentConversationId app) (conversationId fresh),
          title = generateConversationTitle (messages (chatState app)),
          conv_messages = messages (chatState app),
          createdAt = createdTime fresh,
          updatedAt = updatedTime fresh\<rparr>
         \<in> set (conversations (handleNewConversation fresh app))"
  using assms
    saved_conversation_member [of "\<lparr>conv_id = idOrFresh (currentConversationId app) (conversationId fresh),
          title = generateConversationTitle (messages (chatState app)),
          conv_messages = messages (chatState app),
          createdAt = createdTime fresh,
          updatedAt = updatedTime fresh\<rparr>" "conversations app"]
  by (simp add: handleNewConversation_def Let_def)

text \<open>
  Claim C7, as stated, fails. A conversation that holds the welcome message only is saved
  under the id \<open>c1\<close> with the title \<open>New Conversation\<close>; it is selected again, the user sends
  \<open>hi\<close>, and the next save stores the same id with the title \<open>hi\<close>: the title of a
  conversation is not fixed once derived. The title \<open>hi\<close> is the whole text, it is not
  followed by an ellipsis.
\<close>

theorem title_changes_between_saves_counterexample:
  "map conv_id (conversations exampleSavedOnce) = [''c1'']
   \<and> map title (conversations exampleSavedOnce) = [''New Conversation'']
   \<and> map conv_id (conversations exampleSavedTwice) = [''c1'']
   \<and> map title (conversations exampleSavedTwice) = [''hi'']
   \<and> generateConversationTitle [exampleUserHi] = ''hi''
   \<and> generateConversationTitle [exampleUserHi] \<noteq> take 30 ''hi'' @ ''...''"
  by (simp add: exampleSavedOnce_def exampleSavedTwice_def exampleAfterSend_def exampleReopened_def
        handleNewConversation_def handleSelectConversation_def addWelcomeMessage_def
        handleSendMessage_def userMessage_def aiMessage_def contextualMessage_def
        exampleService_def newAIService_value getProvider_def exampleEnv_def
        gpt_generateResponse_def tryCatch_def generateFallbackResponse_def toLowerCase_def
        exampleApp_def exampleChat_def exampleFresh_def exampleUserHi_def
        exampleFreshConversation_def exampleFreshConversation2_def
        generateConversationTitle_def exampleWelcome_def Let_def)

text \<open>
  Claim C7, amended. The title is computed from the message sequence every time the
  conversation is saved by \<open>handleNewConversation\<close>. It is the text of the first user
  message when that text has at most 30 characters, and its first 30 characters followed by
  \<open>...\<close> when it is longer; without any user message it is \<open>New Conversation\<close>. Once the
  sequence holds a user message, appending messages does not change the title.
\<close>

theorem title_recomputed_from_first_user_message:
  "(msgs = before @ m # after \<and> (\<forall>x\<in>set before. msg_type x \<noteq> User) \<and> msg_type m = User \<longrightarrow>
      generateConversationTitle msgs =
        (if 30 < length (msg_text m) then take 30 (msg_text m) @ ''...'' else msg_text m))
   \<and> ((\<forall>x\<in>set msgs. msg_type x \<noteq> User) \<longrightarrow> generateConversationTitle msgs = ''New Conversation'')
   \<and> ((\<exists>x\<in>set msgs. msg_type x = User) \<longrightarrow>
        generateConversationTitle (msgs @ later) = generateConversationTitle msgs)
   \<and> (messages (chatState app) \<noteq> [] \<longrightarrow>
        \<lparr>conv_id = idOrFresh (currentConversationId app) (conversationId fresh),
         title = generateConversationTitle (messages (chatState app)),
         conv_messages = messages (chatState app),
         createdAt = createdTime fresh,
         updatedAt = updatedTime fresh\<rparr>
        \<in> set (conversations (handleNewConversation fresh app)))"
  using title_first_user [of msgs before m after] title_no_user [of msgs]
    title_append [of msgs later] handleNewConversation_saves [of app fresh]
  by blast

text \<open>
  Claim C7, amended, on a first user message of 46 characters, on the welcome message
  alone, on an appended message, and on the first save of the example state.
\<close>

theorem title_recomputed_from_first_user_message_witness:
  "generateConversationTitle [exampleWelcome, exampleUserLong, exampleUserHi]
     = ''Please summarize the attached '' @ ''...''
   \<and> generateConversationTitle [exampleWelcome] = ''New Conversation''
   \<and> generateConversationTitle ([exampleUserHi] @ [exampleUserLong]) = ''hi''
   \<and> \<lparr>conv_id = ''c1'', title = ''New Conversation'', conv_messages = [exampleWelcome],
       createdAt = 5, updatedAt = 5\<rparr>
      \<in> set (conversations (handleNewConversation exampleFreshConversation exampleApp))"
proof -
  have h1: "[exampleWelcome, exampleUserLong, exampleUserHi] = [exampleWelcome] @ exampleUserLong # [exampleUserHi]
            \<and> (\<forall>x\<in>set [exampleWelcome]. msg_type x \<noteq> User) \<and> msg_type exampleUserLong = User"
    by (simp add: exampleWelcome_def exampleUserLong_def)
  have h2: "\<forall>x\<in>set [exampleWelcome]. msg_type x \<noteq> User"
    by (simp add: exampleWelcome_def)
  have h3: "\<exists>x\<in>set [exampleUserHi]. msg_type x = User"
    by (simp add: exampleUserHi_def)
  have h4: "messages (chatState exampleApp) \<noteq> []"
    by (simp add: exampleApp_def exampleChat_def)
  from h1 title_recomputed_from_first_user_message
            [of "[exampleWelcome, exampleUserLong, exampleUserHi]" "[exampleWelcome]" exampleUserLong
                "[exampleUserHi]" "[]" exampleApp exampleFreshConversation]
  have one: "generateConversationTitle [exampleWelcome, exampleUserLong, exampleUserHi]
               = (if 30 < length (msg_text exampleUserLong)
                  then take 30 (msg_text exampleUserLong) @ ''...'' else msg_text exampleUserLong)"
    by blast
  from h2 h3 h4 title_recomputed_from_first_user_message
            [of "[exampleWelcome]" "[]" exampleWelcome "[]" "[exampleUserLong]" exampleApp exampleFreshConversation]
            title_recomputed_from_first_user_message
            [of "[exampleUserHi]" "[]" exampleUserHi "[]" "[exampleUserLong]" exampleApp exampleFreshConversation]
  have two: "generateConversationTitle [exampleWelcome] = ''New Conversation''"
    and three: "generateConversationTitle ([exampleUserHi] @ [exampleUserLong]) = generateConversationTitle [exampleUserHi]"
    and four: "\<lparr>conv_id = idOrFresh (currentConversationId exampleApp) (conversationId exampleFreshConversation),
         title = generateConversationTitle (messages (chatState exampleApp)),
         conv_messages = messages (chatState exampleApp),
         createdAt = createdTime exampleFreshConversation,
         updatedAt = updatedTime exampleFreshConversation\<rparr>
        \<in> set (conversations (handleNewConversation exampleFreshConversation exampleApp))"
    by blast+
  have five: "generateConversationTitle [exampleUserHi] = ''hi''"
    by (simp add: generateConversationTitle_def exampleUserHi_def)
  have six: "generateConversationTitle (messages (chatState exampleApp)) = ''New Conversation''"
    using two by (simp add: exampleApp_def exampleChat_def)
  from one have one': "generateConversationTitle [exampleWelcome, exampleUserLong, exampleUserHi]
     = ''Please summarize the attached '' @ ''...''"
    by (simp add: exampleUserLong_def)
  from four six have four': "\<lparr>conv_id = ''c1'', title = ''New Conversation'', conv_messages = [exampleWelcome],
       createdAt = 5, updatedAt = 5\<rparr>
      \<in> set (conversations (handleNewConversation exampleFreshConversation exampleApp))"
    by (simp add: exampleApp_def exampleChat_def exampleFreshConversation_def)
  from one' two three five four' show ?thesis by simp
qed

end
